theory Spec2Isabelle
  imports Main
begin

section \<open>JavaScript values\<close>

text \<open>
  The values the client handles: plugin results, event payloads, the parsed user record and
  the JSON payloads it posts. The code never computes with a number: it tests truthiness,
  compares with \<open>===\<close> against string constants and interpolates into template
  literals. A number is therefore carried as the string \<open>Number.prototype.toString\<close>
  gives for it (\<open>''0''\<close> for both zeros, \<open>''NaN''\<close>), which determines all three.
  An object is the list of its own properties.
\<close>

datatype jsval =
    JUndefined
  | JNull
  | JBool bool
  | JNum string
  | JStr string
  | JArr "jsval list"
  | JObj "(string \<times> jsval) list"

datatype error = TypeError | SyntaxError | HostError jsval

text \<open>
  Property read \<open>v.k\<close>. Reading a property of \<open>undefined\<close> or \<open>null\<close> throws a
  TypeError. None of the property names the client reads (value, error, receive, userId,
  title, body, data, notification, type, kedai_id, challenge_id, promo_id, notification_id)
  is inherited from a built-in prototype, so on a primitive or an array the read gives
  \<open>undefined\<close>. An object lists each property name once.
\<close>

fun get_prop :: "jsval \<Rightarrow> string \<Rightarrow> error + jsval" where
  "get_prop JUndefined k = Inl TypeError"
| "get_prop JNull k = Inl TypeError"
| "get_prop (JObj kvs) k = Inr (case map_of kvs k of None \<Rightarrow> JUndefined | Some v \<Rightarrow> v)"
| "get_prop v k = Inr JUndefined"

text \<open>Optional chaining \<open>v?.k\<close>: \<open>undefined\<close> where the plain read would throw.\<close>

definition opt_chain :: "jsval \<Rightarrow> string \<Rightarrow> jsval" where
  "opt_chain v k = (case get_prop v k of Inl e \<Rightarrow> JUndefined | Inr x \<Rightarrow> x)"

fun truthy :: "jsval \<Rightarrow> bool" where
  "truthy JUndefined = False"
| "truthy JNull = False"
| "truthy (JBool b) = b"
| "truthy (JNum n) = (n \<noteq> ''0'' \<and> n \<noteq> ''NaN'')"
| "truthy (JStr s) = (s \<noteq> [])"
| "truthy (JArr xs) = True"
| "truthy (JObj kvs) = True"

text \<open>The operator \<open>a || b\<close>.\<close>

definition js_or :: "jsval \<Rightarrow> jsval \<Rightarrow> jsval" where
  "js_or a b = (if truthy a then a else b)"

fun join_comma :: "string list \<Rightarrow> string" where
  "join_comma [] = []"
| "join_comma [x] = x"
| "join_comma (x # y # ys) = x @ '','' @ join_comma (y # ys)"

text \<open>The conversions of a list of values, up to the first that throws.\<close>

fun collect :: "(error + string) list \<Rightarrow> error + string list" where
  "collect [] = Inr []"
| "collect (Inl e # rs) = Inl e"
| "collect (Inr x # rs) = (case collect rs of Inl e \<Rightarrow> Inl e | Inr xs \<Rightarrow> Inr (x # xs))"

text \<open>
  The string conversion a template literal \<open>${v}\<close> applies. An array is joined with
  commas, \<open>undefined\<close> and \<open>null\<close> elements giving the empty string. An object
  gives \<open>[object Object]\<close> through the inherited \<open>toString\<close>; when it has a property
  of its own named \<open>toString\<close>, whose value here is never a function, neither that nor
  the inherited \<open>valueOf\<close> yields a primitive and the conversion throws a TypeError.
\<close>

fun ToString :: "jsval \<Rightarrow> error + string" where
  "ToString JUndefined = Inr ''undefined''"
| "ToString JNull = Inr ''null''"
| "ToString (JBool b) = Inr (if b then ''true'' else ''false'')"
| "ToString (JNum n) = Inr n"
| "ToString (JStr s) = Inr s"
| "ToString (JArr xs) =
     (case collect (map (\<lambda>x. case x of JUndefined \<Rightarrow> Inr [] | JNull \<Rightarrow> Inr []
                                      | _ \<Rightarrow> ToString x) xs) of
        Inl e \<Rightarrow> Inl e
      | Inr strs \<Rightarrow> Inr (join_comma strs))"
| "ToString (JObj kvs) =
     (if map_of kvs ''toString'' \<noteq> None then Inl TypeError else Inr ''[object Object]'')"

section \<open>The host: platform check, push plugin, storage, clock, network\<close>

text \<open>
  What an awaited plugin call does: its promise resolves with a value, rejects with an
  error, or never settles (no timeout is applied to any await).
\<close>

datatype outcome = Resolves jsval | Rejects jsval | Pending

datatype response = Response (response_ok: bool) (response_status: nat)

datatype fetch_outcome = Responds response | Fails jsval | NoAnswer

text \<open>
  A \<open>fetch\<close> call. \<open>req_json\<close> is the value handed to \<open>JSON.stringify\<close> for the body.
\<close>

record request =
  req_url :: string
  req_method :: string
  req_headers :: "(string \<times> string) list"
  req_json :: jsval

record host =
  isNativePlatform :: bool
  checkPermissions :: outcome
  requestPermissions :: outcome
  register :: outcome
  addListener :: "string \<Rightarrow> outcome"
  localStorage :: "string \<rightharpoonup> string"
  sessionStorage :: "string \<rightharpoonup> string"
  JSON_parse :: "string \<Rightarrow> error + jsval"
  toISOString_now :: string
  fetch :: "request \<Rightarrow> fetch_outcome"

section \<open>The client object and what it acts on\<close>

datatype level = Info | Warn | Err

datatype plugin_call = CheckPermissions | RequestPermissions | Register | AddListener string

text \<open>
  Everything the client does to the outside, in order: console output (the message, without
  the values logged after it), plugin calls, \<open>fetch\<close> calls and assignments to
  \<open>window.location.href\<close>.
\<close>

datatype effect =
    Console level string
  | Plugin plugin_call
  | Fetch request
  | Navigate string

record element =
  elem_ref :: nat
  elem_tag :: string
  elem_id :: string
  className :: string
  innerHTML :: string
  cssText :: string
  textContent :: string

text \<open>
  The two fields of \<open>LeqoeHuntNotifications\<close>, then the world around it: the trace of
  effects, the event names that have a callback attached, the children of
  \<open>document.head\<close> and \<open>document.body\<close>, the pending timers (delay in milliseconds
  and the element the callback removes) and the next fresh element reference.
\<close>

record state =
  isInitialized :: bool
  deviceToken :: jsval
  trace :: "effect list"
  listeners :: "string list"
  document_head :: "element list"
  document_body :: "element list"
  timers :: "(nat \<times> nat) list"
  next_ref :: nat

definition console :: "level \<Rightarrow> string \<Rightarrow> state \<Rightarrow> state" where
  "console l msg s = s\<lparr>trace := trace s @ [Console l msg]\<rparr>"

definition plugin :: "plugin_call \<Rightarrow> state \<Rightarrow> state" where
  "plugin c s = s\<lparr>trace := trace s @ [Plugin c]\<rparr>"

definition do_fetch :: "request \<Rightarrow> state \<Rightarrow> state" where
  "do_fetch r s = s\<lparr>trace := trace s @ [Fetch r]\<rparr>"

definition navigate :: "string \<Rightarrow> state \<Rightarrow> state" where
  "navigate u s = s\<lparr>trace := trace s @ [Navigate u]\<rparr>"

fun fetches :: "effect list \<Rightarrow> request list" where
  "fetches [] = []"
| "fetches (Fetch r # es) = r # fetches es"
| "fetches (e # es) = fetches es"

fun navigations :: "effect list \<Rightarrow> string list" where
  "navigations [] = []"
| "navigations (Navigate u # es) = u # navigations es"
| "navigations (e # es) = navigations es"

fun plugin_calls :: "effect list \<Rightarrow> plugin_call list" where
  "plugin_calls [] = []"
| "plugin_calls (Plugin c # es) = c # plugin_calls es"
| "plugin_calls (e # es) = plugin_calls es"

fun console_lines :: "effect list \<Rightarrow> (level \<times> string) list" where
  "console_lines [] = []"
| "console_lines (Console l m # es) = (l, m) # console_lines es"
| "console_lines (e # es) = console_lines es"

section \<open>initialize\<close>

definition check_mark :: string where
  "check_mark = [CHR 0xE2, CHR 0x9C, CHR 0x85]"

text \<open>The \<open>catch\<close> of \<open>initialize\<close>: log and swallow.\<close>

definition init_catch :: "state \<Rightarrow> state" where
  "init_catch s = console Err ''Failed to initialize push notifications:'' s"

text \<open>
  An \<open>await\<close> inside the \<open>try\<close> of \<open>initialize\<close>: suspended for good on a promise
  that never settles, in the \<open>catch\<close> on a rejection, continuing with the value otherwise.
\<close>

definition await_try :: "outcome \<Rightarrow> state \<Rightarrow> (jsval \<Rightarrow> state \<Rightarrow> state) \<Rightarrow> state" where
  "await_try out s k =
     (case out of Pending \<Rightarrow> s | Rejects e \<Rightarrow> init_catch s | Resolves v \<Rightarrow> k v s)"

text \<open>The read \<open>permStatus.receive\<close> inside the \<open>try\<close>.\<close>

definition read_receive :: "jsval \<Rightarrow> state \<Rightarrow> (jsval \<Rightarrow> state) \<Rightarrow> state" where
  "read_receive permStatus s k =
     (case get_prop permStatus ''receive'' of Inl e \<Rightarrow> init_catch s | Inr r \<Rightarrow> k r)"

text \<open>\<open>await PushNotifications.addListener(name, callback)\<close>.\<close>

definition call_addListener :: "host \<Rightarrow> string \<Rightarrow> state \<Rightarrow> (state \<Rightarrow> state) \<Rightarrow> state" where
  "call_addListener h name s k =
     await_try (addListener h name) (plugin (AddListener name) s)
       (\<lambda>handle s'. k (s'\<lparr>listeners := listeners s' @ [name]\<rparr>))"

text \<open>Lines 31 to 64: from the test of the final permission state to the end of the \<open>try\<close>.\<close>

definition init_granted :: "host \<Rightarrow> jsval \<Rightarrow> state \<Rightarrow> state" where
  "init_granted h permStatus s =
     read_receive permStatus s (\<lambda>r.
       if r \<noteq> JStr ''granted'' then console Warn ''Push notification permission denied'' s
       else
         await_try (register h) (plugin Register s) (\<lambda>u s.
         call_addListener h ''registration'' s (\<lambda>s.
         call_addListener h ''registrationError'' s (\<lambda>s.
         call_addListener h ''pushNotificationReceived'' s (\<lambda>s.
         call_addListener h ''pushNotificationActionPerformed'' s (\<lambda>s.
           console Info
             (check_mark @ '' LeqoeHunt Push Notifications initialized successfully'')
             (s\<lparr>isInitialized := True\<rparr>)))))))"

definition initialize :: "host \<Rightarrow> state \<Rightarrow> state" where
  "initialize h s =
     (if \<not> isNativePlatform h
      then console Info ''Push notifications not available on web platform'' s
      else
        await_try (checkPermissions h) (plugin CheckPermissions s) (\<lambda>permStatus s.
        read_receive permStatus s (\<lambda>r.
          if r = JStr ''prompt''
          then await_try (requestPermissions h) (plugin RequestPermissions s)
                 (\<lambda>permStatus s. init_granted h permStatus s)
          else init_granted h permStatus s)))"

text \<open>
  The constructor sets the two fields and calls \<open>initialize\<close>, which it does not await.
  \<open>constructor h w\<close> is the state once that call has run as far as it gets: to its end,
  or to a promise that never settles. When \<open>new\<close> itself returns, a native host has only
  seen the \<open>checkPermissions\<close> call and the flag is still false; that moment is
  \<open>constructor\<close> on the host changed to leave \<open>checkPermissions\<close> pending.
\<close>

definition fields_init :: "state \<Rightarrow> state" where
  "fields_init w = w\<lparr>isInitialized := False, deviceToken := JNull\<rparr>"

definition constructor :: "host \<Rightarrow> state \<Rightarrow> state" where
  "constructor h w = initialize h (fields_init w)"

section \<open>Forwarding the token\<close>

text \<open>The operator \<open>||\<close> on two \<open>getItem\<close> results (a string, or \<open>null\<close>).\<close>

definition item_or :: "string option \<Rightarrow> string option \<Rightarrow> string option" where
  "item_or a b = (case a of Some v \<Rightarrow> if v \<noteq> [] then Some v else b | None \<Rightarrow> b)"

definition no_user :: jsval where
  "no_user = JObj [(''userId'', JNull)]"

text \<open>
  \<open>localStorage.getItem('leqoehunt_user') || sessionStorage.getItem('leqoehunt_user')\<close>.
\<close>

definition stored_user :: "host \<Rightarrow> string option" where
  "stored_user h =
     item_or (localStorage h ''leqoehunt_user'') (sessionStorage h ''leqoehunt_user'')"

text \<open>
  \<open>getUserInfo\<close>: the stored item, parsed when it is a non-empty string; a throwing
  \<open>JSON.parse\<close> is caught and logged as a warning. Whatever \<open>JSON.parse\<close> returns
  is returned as it is.
\<close>

definition getUserInfo :: "host \<Rightarrow> state \<Rightarrow> jsval \<times> state" where
  "getUserInfo h s =
     (case stored_user h of
        None \<Rightarrow> (no_user, s)
      | Some userInfo \<Rightarrow>
          if userInfo = [] then (no_user, s)
          else (case JSON_parse h userInfo of
                  Inr parsed \<Rightarrow> (parsed, s)
                | Inl e \<Rightarrow> (no_user, console Warn ''Could not parse user info:'' s)))"

definition token_request :: "jsval \<Rightarrow> jsval \<Rightarrow> string \<Rightarrow> request" where
  "token_request token user_id now =
     \<lparr>req_url = ''https://leqoehunt.my/api/push-token'',
      req_method = ''POST'',
      req_headers = [(''Content-Type'', ''application/json''), (''Accept'', ''application/json'')],
      req_json = JObj [(''device_token'', token),
                       (''platform'', JStr ''android''),
                       (''app_version'', JStr ''1.0.0''),
                       (''user_id'', user_id),
                       (''timestamp'', JStr now)]\<rparr>"

text \<open>
  \<open>sendTokenToServer\<close>. The read \<open>userInfo.userId\<close> stands inside the \<open>try\<close>: when it
  throws, the \<open>catch\<close> logs an error and \<open>fetch\<close> is never called.
\<close>

definition sendTokenToServer :: "host \<Rightarrow> jsval \<Rightarrow> state \<Rightarrow> state" where
  "sendTokenToServer h token s =
     (case getUserInfo h s of (userInfo, s1) \<Rightarrow>
        (case get_prop userInfo ''userId'' of
           Inl e \<Rightarrow> console Err ''Error sending token to server:'' s1
         | Inr userId \<Rightarrow>
             (let req = token_request token (js_or userId JNull) (toISOString_now h);
                  s2 = do_fetch req s1
              in case fetch h req of
                   NoAnswer \<Rightarrow> s2
                 | Fails e \<Rightarrow> console Err ''Error sending token to server:'' s2
                 | Responds r \<Rightarrow>
                     if response_ok r
                     then console Info
                            (check_mark @ '' Device token registered with LeqoeHunt server'') s2
                     else console Warn ''Failed to register token with server:'' s2)))"

section \<open>Analytics\<close>

definition analytics_request :: "jsval \<Rightarrow> jsval \<Rightarrow> string \<Rightarrow> jsval \<Rightarrow> request" where
  "analytics_request action d now token =
     \<lparr>req_url = ''https://leqoehunt.my/api/notification-analytics'',
      req_method = ''POST'',
      req_headers = [(''Content-Type'', ''application/json'')],
      req_json = JObj [(''action'', action),
                       (''notification_id'', opt_chain d ''notification_id''),
                       (''type'', opt_chain d ''type''),
                       (''timestamp'', JStr now),
                       (''device_token'', token)]\<rparr>"

text \<open>
  \<open>trackNotificationEvent\<close>. The read \<open>notification.data\<close> can throw; the surrounding
  \<open>try\<close> turns that into a warning. A rejected \<open>fetch\<close> promise is a warning too.
\<close>

definition trackNotificationEvent :: "host \<Rightarrow> jsval \<Rightarrow> jsval \<Rightarrow> state \<Rightarrow> state" where
  "trackNotificationEvent h action notification s =
     (case get_prop notification ''data'' of
        Inl e \<Rightarrow> console Warn ''Failed to track notification event:'' s
      | Inr d \<Rightarrow>
          (let req = analytics_request action d (toISOString_now h) (deviceToken s);
               s1 = do_fetch req s
           in case fetch h req of
                Fails e \<Rightarrow> console Warn ''Analytics tracking failed:'' s1
              | Responds r \<Rightarrow> s1
              | NoAnswer \<Rightarrow> s1))"

text \<open>
  How a synchronous call ends: it returns, or it throws, in either case leaving a state.
\<close>

datatype completion = Returns state | Throws error state

text \<open>A property read outside any \<open>try\<close>: a TypeError propagates to the caller.\<close>

definition read_prop :: "jsval \<Rightarrow> string \<Rightarrow> state \<Rightarrow> (jsval \<Rightarrow> completion) \<Rightarrow> completion" where
  "read_prop v k s cont = (case get_prop v k of Inl e \<Rightarrow> Throws e s | Inr x \<Rightarrow> cont x)"

text \<open>An interpolation \<open>${v}\<close> outside any \<open>try\<close>.\<close>

definition interpolate :: "jsval \<Rightarrow> state \<Rightarrow> (string \<Rightarrow> completion) \<Rightarrow> completion" where
  "interpolate v s cont = (case ToString v of Inl e \<Rightarrow> Throws e s | Inr str \<Rightarrow> cont str)"

section \<open>Navigation helpers\<close>

definition navigateToKedai :: "jsval \<Rightarrow> state \<Rightarrow> completion" where
  "navigateToKedai kedaiId s =
     interpolate kedaiId s (\<lambda>str. Returns (navigate (''https://leqoehunt.my/kedai/'' @ str) s))"

definition navigateToPhotoHunt :: "jsval \<Rightarrow> state \<Rightarrow> completion" where
  "navigateToPhotoHunt challengeId s =
     interpolate challengeId s (\<lambda>str.
       Returns (navigate (''https://leqoehunt.my/photohunt/'' @ str) s))"

definition navigateToBusinessDashboard :: "state \<Rightarrow> state" where
  "navigateToBusinessDashboard s = navigate ''https://leqoehunt.my/dashboard'' s"

definition navigateToPromotion :: "jsval \<Rightarrow> state \<Rightarrow> completion" where
  "navigateToPromotion promoId s =
     interpolate promoId s (\<lambda>str. Returns (navigate (''https://leqoehunt.my/promo/'' @ str) s))"

definition navigateToHome :: "state \<Rightarrow> state" where
  "navigateToHome s = navigate ''https://leqoehunt.my/'' s"

section \<open>The in-app banner\<close>

definition nl :: string where
  "nl = [CHR 0x0A]"

text \<open>
  The template literal assigned to \<open>innerHTML\<close>, cut at its two interpolations. The bell and
  the multiplication sign are written as their UTF-8 bytes.
\<close>

definition banner_pre :: string where
  \<open>banner_pre =
     nl @ ''            <div class="notification-content">'' @ nl @
     ''                <div class="notification-icon">'' @
     [CHR 0xF0, CHR 0x9F, CHR 0x94, CHR 0x94] @ ''</div>'' @ nl @
     ''                <div class="notification-text">'' @ nl @
     ''                    <div class="notification-title">''\<close>

definition banner_mid :: string where
  \<open>banner_mid =
     ''</div>'' @ nl @ ''                    <div class="notification-body">''\<close>

definition banner_post :: string where
  \<open>banner_post =
     ''</div>'' @ nl @ ''                </div>'' @ nl @
     ''                <div class="notification-close" onclick="this.parentElement.parentElement.remove()">'' @
     [CHR 0xC3, CHR 0x97] @ ''</div>'' @ nl @ ''            </div>'' @ nl @
     ''        ''\<close>

definition banner_innerHTML :: "string \<Rightarrow> string \<Rightarrow> string" where
  "banner_innerHTML title body = banner_pre @ title @ banner_mid @ body @ banner_post"

definition banner_cssText :: string where
  \<open>banner_cssText =
     nl @ ''            position: fixed;'' @ nl @
     ''            top: 20px;'' @ nl @ ''            left: 20px;'' @ nl @
     ''            right: 20px;'' @ nl @
     ''            background: linear-gradient(135deg, #4A55A2 0%, #667eea 100%);'' @ nl @
     ''            color: white;'' @ nl @
     ''            padding: 15px;'' @ nl @ ''            border-radius: 12px;'' @ nl @
     ''            box-shadow: 0 4px 20px rgba(0,0,0,0.3);'' @ nl @
     ''            z-index: 10000;'' @ nl @
     ''            animation: slideDown 0.3s ease-out;'' @ nl @ ''        ''\<close>

definition styles_textContent :: string where
  \<open>styles_textContent =
     nl @ ''                @keyframes slideDown {'' @ nl @
     ''                    from { transform: translateY(-100px); opacity: 0; }'' @ nl @
     ''                    to { transform: translateY(0); opacity: 1; }'' @ nl @
     ''                }'' @ nl @
     ''                .notification-content {'' @ nl @
     ''                    display: flex;'' @ nl @
     ''                    align-items: center;'' @ nl @
     ''                    gap: 12px;'' @ nl @ ''                }'' @ nl @
     ''                .notification-icon {'' @ nl @
     ''                    font-size: 24px;'' @ nl @ ''                }'' @ nl @
     ''                .notification-text {'' @ nl @
     ''                    flex: 1;'' @ nl @ ''                }'' @ nl @
     ''                .notification-title {'' @ nl @
     ''                    font-weight: bold;'' @ nl @
     ''                    margin-bottom: 4px;'' @ nl @ ''                }'' @ nl @
     ''                .notification-body {'' @ nl @
     ''                    font-size: 14px;'' @ nl @
     ''                    opacity: 0.9;'' @ nl @ ''                }'' @ nl @
     ''                .notification-close {'' @ nl @
     ''                    font-size: 20px;'' @ nl @
     ''                    cursor: pointer;'' @ nl @
     ''                    opacity: 0.7;'' @ nl @ ''                }'' @ nl @
     ''                .notification-close:hover {'' @ nl @
     ''                    opacity: 1;'' @ nl @ ''                }'' @ nl @
     ''            ''\<close>

text \<open>\<open>document.createElement(tag)\<close>: a fresh, detached element.\<close>

definition createElement :: "string \<Rightarrow> state \<Rightarrow> element \<times> state" where
  "createElement tag s =
     (\<lparr>elem_ref = next_ref s, elem_tag = tag, elem_id = [], className = [], innerHTML = [],
       cssText = [], textContent = []\<rparr>,
      s\<lparr>next_ref := Suc (next_ref s)\<rparr>)"

text \<open>
  \<open>document.querySelector('#leqoehunt-notification-styles')\<close> finds an element, among
  the children of head and body (the markup inside a banner is not searched).
\<close>

definition has_notification_styles :: "state \<Rightarrow> bool" where
  "has_notification_styles s =
     list_ex (\<lambda>e. elem_id e = ''leqoehunt-notification-styles'')
       (document_head s @ document_body s)"

text \<open>Lines 193 to 230: the style sheet is added once.\<close>

definition add_styles :: "state \<Rightarrow> state" where
  "add_styles s =
     (if \<not> has_notification_styles s
      then (case createElement ''style'' s of (styles, s1) \<Rightarrow>
              s1\<lparr>document_head := document_head s1 @
                     [styles\<lparr>elem_id := ''leqoehunt-notification-styles'',
                             textContent := styles_textContent\<rparr>]\<rparr>)
      else s)"

text \<open>
  \<open>showInAppNotification\<close>: builds the banner, adds the style sheet when it is missing,
  appends the banner to \<open>document.body\<close> and sets the 5000 ms timer that removes it.
\<close>

definition showInAppNotification :: "jsval \<Rightarrow> state \<Rightarrow> completion" where
  "showInAppNotification notification s =
     (case createElement ''div'' s of (el, s1) \<Rightarrow>
        read_prop notification ''title'' s1 (\<lambda>title.
        interpolate title s1 (\<lambda>title_str.
        read_prop notification ''body'' s1 (\<lambda>body.
        interpolate body s1 (\<lambda>body_str.
          (let notificationEl =
                 el\<lparr>className := ''leqoehunt-notification'',
                    innerHTML := banner_innerHTML title_str body_str,
                    cssText := banner_cssText\<rparr>;
               s2 = add_styles s1;
               s3 = s2\<lparr>document_body := document_body s2 @ [notificationEl]\<rparr>
           in Returns (s3\<lparr>timers := timers s3 @ [(5000, elem_ref notificationEl)]\<rparr>)))))))"

text \<open>
  The timer's callback, and the close button's \<open>onclick\<close>: the banner leaves the document
  if it is still in it.
\<close>

definition remove_element :: "nat \<Rightarrow> state \<Rightarrow> state" where
  "remove_element r s = s\<lparr>document_body := filter (\<lambda>e. elem_ref e \<noteq> r) (document_body s)\<rparr>"

definition fire_timer :: "nat \<times> nat \<Rightarrow> state \<Rightarrow> state" where
  "fire_timer t s =
     (if t \<in> set (timers s)
      then remove_element (snd t) (s\<lparr>timers := remove1 t (timers s)\<rparr>)
      else s)"

section \<open>The two notification handlers\<close>

text \<open>
  \<open>handleNotificationReceived\<close>: the argument object is built from three reads of the
  notification, then the banner is shown and the event tracked.
\<close>

definition handleNotificationReceived :: "host \<Rightarrow> jsval \<Rightarrow> state \<Rightarrow> completion" where
  "handleNotificationReceived h notification s =
     read_prop notification ''title'' s (\<lambda>title.
     read_prop notification ''body'' s (\<lambda>body.
     read_prop notification ''data'' s (\<lambda>data.
       (case showInAppNotification
               (JObj [(''title'', title), (''body'', body), (''data'', data)]) s of
          Throws e s1 \<Rightarrow> Throws e s1
        | Returns s1 \<Rightarrow>
            Returns (trackNotificationEvent h (JStr ''received'') notification s1)))))"

text \<open>
  \<open>handleNotificationTapped\<close>. The reads \<open>notification.notification.data\<close> and
  \<open>data.type\<close> are unguarded. The \<open>switch\<close> compares with \<open>===\<close>. After the
  navigation, unless it threw, the event is tracked with the inner notification.
\<close>

definition handleNotificationTapped :: "host \<Rightarrow> jsval \<Rightarrow> state \<Rightarrow> completion" where
  "handleNotificationTapped h notification s =
     read_prop notification ''notification'' s (\<lambda>inner.
     read_prop inner ''data'' s (\<lambda>data.
     read_prop data ''type'' s (\<lambda>ty.
       (let tracked = (\<lambda>navigated.
              case navigated of
                Throws e s1 \<Rightarrow> Throws e s1
              | Returns s1 \<Rightarrow> Returns (trackNotificationEvent h (JStr ''opened'') inner s1))
        in if truthy ty then
             (if ty = JStr ''kedai_verification''
                then read_prop data ''kedai_id'' s (\<lambda>kedaiId.
                       tracked (navigateToKedai kedaiId s))
              else if ty = JStr ''photohunt_challenge''
                then read_prop data ''challenge_id'' s (\<lambda>challengeId.
                       tracked (navigateToPhotoHunt challengeId s))
              else if ty = JStr ''business_update''
                then tracked (Returns (navigateToBusinessDashboard s))
              else if ty = JStr ''promotional''
                then read_prop data ''promo_id'' s (\<lambda>promoId.
                       tracked (navigateToPromotion promoId s))
              else tracked (Returns (navigateToHome s)))
           else tracked (Returns (navigateToHome s))))))"

section \<open>The four listeners\<close>

definition on_registration :: "host \<Rightarrow> jsval \<Rightarrow> state \<Rightarrow> completion" where
  "on_registration h token s =
     read_prop token ''value'' s (\<lambda>v.
       Returns (sendTokenToServer h v
                  ((console Info ''Push registration success, token: '' s)\<lparr>deviceToken := v\<rparr>)))"

definition on_registrationError :: "jsval \<Rightarrow> state \<Rightarrow> completion" where
  "on_registrationError error s =
     read_prop error ''error'' s (\<lambda>v. Returns (console Err ''Registration error: '' s))"

definition on_pushNotificationReceived :: "host \<Rightarrow> jsval \<Rightarrow> state \<Rightarrow> completion" where
  "on_pushNotificationReceived h notification s =
     handleNotificationReceived h notification (console Info ''Push notification received: '' s)"

definition on_pushNotificationActionPerformed :: "host \<Rightarrow> jsval \<Rightarrow> state \<Rightarrow> completion" where
  "on_pushNotificationActionPerformed h notification s =
     handleNotificationTapped h notification
       (console Info ''Push notification action performed'' s)"

definition getDeviceToken :: "state \<Rightarrow> jsval" where
  "getDeviceToken s = deviceToken s"

definition isReady :: "state \<Rightarrow> bool" where
  "isReady s = isInitialized s"

section \<open>Everything that can happen to the client\<close>

text \<open>
  The operations of the object: its methods, the four callbacks the plugin may invoke, the
  banner's timer and its close button. A thrown exception leaves the state it was thrown in.
\<close>

datatype op =
    Initialize
  | Registration jsval
  | RegistrationError jsval
  | PushNotificationReceived jsval
  | PushNotificationActionPerformed jsval
  | SendTokenToServer jsval
  | HandleNotificationReceived jsval
  | HandleNotificationTapped jsval
  | ShowInAppNotification jsval
  | NavigateToKedai jsval
  | NavigateToPhotoHunt jsval
  | NavigateToBusinessDashboard
  | NavigateToPromotion jsval
  | NavigateToHome
  | GetUserInfo
  | TrackNotificationEvent jsval jsval
  | GetDeviceToken
  | IsReady
  | TimerFires "nat \<times> nat"
  | CloseClicked nat

fun state_of :: "completion \<Rightarrow> state" where
  "state_of (Returns s) = s"
| "state_of (Throws e s) = s"

fun step :: "host \<Rightarrow> op \<Rightarrow> state \<Rightarrow> state" where
  "step h Initialize s = initialize h s"
| "step h (Registration token) s = state_of (on_registration h token s)"
| "step h (RegistrationError error) s = state_of (on_registrationError error s)"
| "step h (PushNotificationReceived n) s = state_of (on_pushNotificationReceived h n s)"
| "step h (PushNotificationActionPerformed n) s =
     state_of (on_pushNotificationActionPerformed h n s)"
| "step h (SendTokenToServer token) s = sendTokenToServer h token s"
| "step h (HandleNotificationReceived n) s = state_of (handleNotificationReceived h n s)"
| "step h (HandleNotificationTapped n) s = state_of (handleNotificationTapped h n s)"
| "step h (ShowInAppNotification n) s = state_of (showInAppNotification n s)"
| "step h (NavigateToKedai v) s = state_of (navigateToKedai v s)"
| "step h (NavigateToPhotoHunt v) s = state_of (navigateToPhotoHunt v s)"
| "step h NavigateToBusinessDashboard s = navigateToBusinessDashboard s"
| "step h (NavigateToPromotion v) s = state_of (navigateToPromotion v s)"
| "step h NavigateToHome s = navigateToHome s"
| "step h GetUserInfo s = snd (getUserInfo h s)"
| "step h (TrackNotificationEvent action n) s = trackNotificationEvent h action n s"
| "step h GetDeviceToken s = s"
| "step h IsReady s = s"
| "step h (TimerFires t) s = fire_timer t s"
| "step h (CloseClicked r) s = remove_element r s"

text \<open>A history: each operation with the host behaviour it meets.\<close>

fun run :: "(host \<times> op) list \<Rightarrow> state \<Rightarrow> state" where
  "run [] s = s"
| "run ((h, p) # hops) s = run hops (step h p s)"

definition four_events :: "string list" where
  "four_events = [''registration'', ''registrationError'', ''pushNotificationReceived'',
                  ''pushNotificationActionPerformed'']"

fun is_resolved :: "outcome \<Rightarrow> bool" where
  "is_resolved (Resolves v) = True"
| "is_resolved (Rejects e) = False"
| "is_resolved Pending = False"

section \<open>Concrete hosts and payloads\<close>

text \<open>A page on which nothing has happened yet.\<close>

definition blank_page :: state where
  "blank_page =
     \<lparr>isInitialized = False, deviceToken = JNull, trace = [], listeners = [],
      document_head = [], document_body = [], timers = [], next_ref = 0\<rparr>"

text \<open>
  \<open>JSON.parse\<close> on the three texts the examples store, the only ones it is applied
  to: \<open>null\<close> parses to \<open>null\<close>, \<open>{}\<close> to the empty object, and \<open>{oops\<close> is a
  syntax error.
\<close>

definition parse_examples :: "string \<Rightarrow> error + jsval" where
  "parse_examples item =
     (if item = ''null'' then Inr JNull
      else if item = ''{}'' then Inr (JObj [])
      else Inl SyntaxError)"

definition perm :: "string \<Rightarrow> jsval" where
  "perm r = JObj [(''receive'', JStr r)]"

text \<open>
  A phone on which the user grants the permission when asked, every plugin call resolves,
  nothing is stored and the server answers 200.
\<close>

definition phone :: host where
  "phone =
     \<lparr>isNativePlatform = True,
      checkPermissions = Resolves (perm ''prompt''),
      requestPermissions = Resolves (perm ''granted''),
      register = Resolves JUndefined,
      addListener = (\<lambda>name. Resolves (JObj [])),
      localStorage = Map.empty,
      sessionStorage = Map.empty,
      JSON_parse = parse_examples,
      toISOString_now = ''2024-05-01T08:00:00.000Z'',
      fetch = (\<lambda>r. Responds (Response True 200))\<rparr>"

definition browser :: host where
  "browser = phone\<lparr>isNativePlatform := False\<rparr>"

definition phone_denied :: host where
  "phone_denied = phone\<lparr>checkPermissions := Resolves (perm ''denied'')\<rparr>"

definition phone_prompt_denied :: host where
  "phone_prompt_denied = phone\<lparr>requestPermissions := Resolves (perm ''denied'')\<rparr>"

definition phone_register_rejects :: host where
  "phone_register_rejects = phone\<lparr>register := Rejects (JStr ''not implemented'')\<rparr>"

definition phone_null_user :: host where
  "phone_null_user = phone\<lparr>localStorage := [''leqoehunt_user'' \<mapsto> ''null'']\<rparr>"

definition phone_broken_user :: host where
  "phone_broken_user = phone\<lparr>sessionStorage := [''leqoehunt_user'' \<mapsto> ''{oops'']\<rparr>"

definition phone_empty_user :: host where
  "phone_empty_user = phone\<lparr>localStorage := [''leqoehunt_user'' \<mapsto> ''{}'']\<rparr>"

definition token_T1 :: jsval where
  "token_T1 = JObj [(''value'', JStr ''T1'')]"

definition tap_kedai_42 :: jsval where
  "tap_kedai_42 =
     JObj [(''actionId'', JStr ''tap''),
           (''notification'',
            JObj [(''title'', JStr ''Kedai''),
                  (''data'', JObj [(''type'', JStr ''kedai_verification''),
                                  (''kedai_id'', JStr ''42'')])])]"

definition tap_untyped :: jsval where
  "tap_untyped =
     JObj [(''actionId'', JStr ''tap''),
           (''notification'', JObj [(''title'', JStr ''Hi''), (''data'', JObj [])])]"

definition tap_without_data :: jsval where
  "tap_without_data =
     JObj [(''actionId'', JStr ''tap''), (''notification'', JObj [(''title'', JStr ''Hi'')])]"

definition hi_there :: jsval where
  "hi_there = JObj [(''title'', JStr ''Hi''), (''body'', JStr ''There''), (''data'', JObj [])]"

section \<open>Facts about the model\<close>

subsection \<open>Projections of the trace\<close>

lemma plugin_calls_append: "plugin_calls (xs @ ys) = plugin_calls xs @ plugin_calls ys"
  by (induction xs rule: plugin_calls.induct) simp_all

lemma fetches_append: "fetches (xs @ ys) = fetches xs @ fetches ys"
  by (induction xs rule: fetches.induct) simp_all

lemma navigations_append: "navigations (xs @ ys) = navigations xs @ navigations ys"
  by (induction xs rule: navigations.induct) simp_all

lemma console_lines_append: "console_lines (xs @ ys) = console_lines xs @ console_lines ys"
  by (induction xs rule: console_lines.induct) simp_all

lemma fetches_console: "fetches (trace (console l m s)) = fetches (trace s)"
  by (simp add: console_def fetches_append)

subsection \<open>Fields that logging and plugin calls leave alone\<close>

lemma flag_console: "isInitialized (console l m s) = isInitialized s"
  by (simp add: console_def)

lemma flag_plugin: "isInitialized (plugin c s) = isInitialized s"
  by (simp add: plugin_def)

lemma listeners_console: "listeners (console l m s) = listeners s"
  by (simp add: console_def)

lemma listeners_plugin: "listeners (plugin c s) = listeners s"
  by (simp add: plugin_def)

subsection \<open>The paths through initialize\<close>

lemma initialize_browser:
  "\<not> isNativePlatform h \<Longrightarrow>
     initialize h s =
       s\<lparr>trace := trace s @ [Console Info ''Push notifications not available on web platform'']\<rparr>"
  by (simp add: initialize_def console_def)

lemma initialize_granted_after_prompt:
  assumes "isNativePlatform h"
    and "checkPermissions h = Resolves p" and "get_prop p ''receive'' = Inr (JStr ''prompt'')"
    and "requestPermissions h = Resolves q" and "get_prop q ''receive'' = Inr (JStr ''granted'')"
    and "register h = Resolves u"
    and "\<forall>name \<in> set four_events. is_resolved (addListener h name)"
  shows "initialize h s =
           s\<lparr>isInitialized := True,
              listeners := listeners s @ four_events,
              trace := trace s @
                [Plugin CheckPermissions, Plugin RequestPermissions, Plugin Register,
                 Plugin (AddListener ''registration''),
                 Plugin (AddListener ''registrationError''),
                 Plugin (AddListener ''pushNotificationReceived''),
                 Plugin (AddListener ''pushNotificationActionPerformed''),
                 Console Info (check_mark @ '' LeqoeHunt Push Notifications initialized successfully'')]\<rparr>"
proof -
  from assms(7) obtain v1 v2 v3 v4 where
    "addListener h ''registration'' = Resolves v1"
    "addListener h ''registrationError'' = Resolves v2"
    "addListener h ''pushNotificationReceived'' = Resolves v3"
    "addListener h ''pushNotificationActionPerformed'' = Resolves v4"
    by (auto simp: four_events_def elim!: is_resolved.elims)
  with assms(1-6) show ?thesis
    by (simp add: initialize_def init_granted_def call_addListener_def await_try_def
        read_receive_def console_def plugin_def four_events_def)
qed

lemma initialize_not_granted:
  assumes "isNativePlatform h"
    and "checkPermissions h = Resolves p" and "get_prop p ''receive'' = Inr r"
    and "r \<noteq> JStr ''prompt''" and "r \<noteq> JStr ''granted''"
  shows "initialize h s =
           s\<lparr>trace := trace s @ [Plugin CheckPermissions,
                                  Console Warn ''Push notification permission denied'']\<rparr>"
  using assms
  by (simp add: initialize_def init_granted_def await_try_def read_receive_def console_def plugin_def)

lemma initialize_not_granted_after_prompt:
  assumes "isNativePlatform h"
    and "checkPermissions h = Resolves p" and "get_prop p ''receive'' = Inr (JStr ''prompt'')"
    and "requestPermissions h = Resolves q" and "get_prop q ''receive'' = Inr r"
    and "r \<noteq> JStr ''granted''"
  shows "initialize h s =
           s\<lparr>trace := trace s @ [Plugin CheckPermissions, Plugin RequestPermissions,
                                  Console Warn ''Push notification permission denied'']\<rparr>"
  using assms
  by (simp add: initialize_def init_granted_def await_try_def read_receive_def console_def plugin_def)

subsection \<open>What initialize preserves\<close>

text \<open>
  Whatever console output, plugin calls, attaching a listener and setting the flag all
  preserve, \<open>initialize\<close> preserves.
\<close>

lemma await_try_preserves:
  assumes "\<And>l m s. P s \<Longrightarrow> P (console l m s)"
    and "P s" and "\<And>v. P (k v s)"
  shows "P (await_try out s k)"
  using assms by (cases out) (simp_all add: await_try_def init_catch_def)

lemma call_addListener_preserves:
  assumes con: "\<And>l m s. P s \<Longrightarrow> P (console l m s)"
    and plu: "\<And>c s. P s \<Longrightarrow> P (plugin c s)"
    and att: "\<And>n s. P s \<Longrightarrow> P (s\<lparr>listeners := listeners s @ [n]\<rparr>)"
    and "P s" and k: "\<And>s'. P s' \<Longrightarrow> P (k s')"
  shows "P (call_addListener h name s k)"
  unfolding call_addListener_def
  by (rule await_try_preserves [where P = P]) (simp_all add: assms)

lemma init_granted_preserves:
  assumes con: "\<And>l m s. P s \<Longrightarrow> P (console l m s)"
    and plu: "\<And>c s. P s \<Longrightarrow> P (plugin c s)"
    and att: "\<And>n s. P s \<Longrightarrow> P (s\<lparr>listeners := listeners s @ [n]\<rparr>)"
    and rdy: "\<And>s. P s \<Longrightarrow> P (s\<lparr>isInitialized := True\<rparr>)"
    and s: "P s"
  shows "P (init_granted h p s)"
proof (cases "get_prop p ''receive''")
  case (Inl e)
  with s con show ?thesis
    by (simp add: init_granted_def read_receive_def init_catch_def)
next
  case (Inr r)
  have "P (await_try (register h) (plugin Register s) (\<lambda>u s.
         call_addListener h ''registration'' s (\<lambda>s.
         call_addListener h ''registrationError'' s (\<lambda>s.
         call_addListener h ''pushNotificationReceived'' s (\<lambda>s.
         call_addListener h ''pushNotificationActionPerformed'' s (\<lambda>s.
           console Info
             (check_mark @ '' LeqoeHunt Push Notifications initialized successfully'')
             (s\<lparr>isInitialized := True\<rparr>)))))))"
    by (intro await_try_preserves [where P = P] call_addListener_preserves [where P = P])
       (simp_all add: assms)
  with Inr s con show ?thesis
    by (simp add: init_granted_def read_receive_def)
qed

lemma initialize_preserves:
  assumes con: "\<And>l m s. P s \<Longrightarrow> P (console l m s)"
    and plu: "\<And>c s. P s \<Longrightarrow> P (plugin c s)"
    and att: "\<And>n s. P s \<Longrightarrow> P (s\<lparr>listeners := listeners s @ [n]\<rparr>)"
    and rdy: "\<And>s. P s \<Longrightarrow> P (s\<lparr>isInitialized := True\<rparr>)"
    and s: "P s"
  shows "P (initialize h s)"
proof (cases "isNativePlatform h")
  case False
  with s con show ?thesis by (simp add: initialize_def)
next
  case True
  let ?s1 = "plugin CheckPermissions s"
  have s1: "P ?s1" using s plu by simp
  have g: "P (init_granted h p s')" if "P s'" for p s'
    using con plu att rdy that by (rule init_granted_preserves [where P = P])
  have req: "P (await_try (requestPermissions h) (plugin RequestPermissions ?s1)
                 (\<lambda>permStatus s. init_granted h permStatus s))"
    by (rule await_try_preserves [where P = P]) (simp_all add: con plu s1 g)
  have "P (read_receive v ?s1 (\<lambda>r.
              if r = JStr ''prompt''
              then await_try (requestPermissions h) (plugin RequestPermissions ?s1)
                     (\<lambda>permStatus s. init_granted h permStatus s)
              else init_granted h v ?s1))" for v
    using s1 req con g
    by (cases "get_prop v ''receive''") (simp_all add: read_receive_def init_catch_def)
  then have "P (await_try (checkPermissions h) ?s1
          (\<lambda>permStatus s.
            read_receive permStatus s (\<lambda>r.
              if r = JStr ''prompt''
              then await_try (requestPermissions h) (plugin RequestPermissions s)
                     (\<lambda>permStatus s. init_granted h permStatus s)
              else init_granted h permStatus s)))"
    using con s1 by (intro await_try_preserves [where P = P]) simp_all
  with True show ?thesis by (simp add: initialize_def)
qed

lemma initialize_keeps_flag:
  "isInitialized s \<Longrightarrow> isInitialized (initialize h s)"
  by (rule initialize_preserves [where P = isInitialized])
     (simp_all add: console_def plugin_def)

lemma initialize_keeps_listeners:
  "set ls \<subseteq> set (listeners s) \<Longrightarrow> set ls \<subseteq> set (listeners (initialize h s))"
  by (rule initialize_preserves [where P = "\<lambda>s. set ls \<subseteq> set (listeners s)"])
     (auto simp add: console_def plugin_def)

lemma initialize_keeps_token:
  "deviceToken (initialize h s) = deviceToken s"
  by (rule initialize_preserves [where P = "\<lambda>s'. deviceToken s' = deviceToken s"])
     (simp_all add: console_def plugin_def)

lemma initialize_extends_listeners: "\<exists>ls. listeners (initialize h s) = listeners s @ ls"
proof (rule initialize_preserves [where P = "\<lambda>s'. \<exists>ls. listeners s' = listeners s @ ls"])
  fix n and s' :: state
  assume "\<exists>ls. listeners s' = listeners s @ ls"
  then obtain ls where "listeners s' = listeners s @ ls" by blast
  then have "listeners (s'\<lparr>listeners := listeners s' @ [n]\<rparr>) = listeners s @ (ls @ [n])"
    by simp
  then show "\<exists>ls. listeners (s'\<lparr>listeners := listeners s' @ [n]\<rparr>) = listeners s @ ls"
    by blast
qed (simp_all add: console_def plugin_def)

subsection \<open>When initialize sets the flag\<close>

lemma await_try_sets_flag:
  assumes "\<not> isInitialized s" and "isInitialized (await_try out s k)"
  shows "\<exists>v. out = Resolves v \<and> await_try out s k = k v s"
  using assms by (cases out) (simp_all add: await_try_def init_catch_def flag_console)

lemma call_addListener_sets_flag:
  assumes "\<not> isInitialized s" and "isInitialized (call_addListener h name s k)"
  shows "is_resolved (addListener h name) \<and>
         call_addListener h name s k =
           k ((plugin (AddListener name) s)\<lparr>listeners := listeners s @ [name]\<rparr>)"
proof -
  have "\<not> isInitialized (plugin (AddListener name) s)"
    using assms(1) by (simp add: flag_plugin)
  from await_try_sets_flag [OF this assms(2) [unfolded call_addListener_def]]
  show ?thesis
    by (auto simp: call_addListener_def listeners_plugin)
qed

lemma init_granted_sets_flag:
  assumes "\<not> isInitialized s" and "isInitialized (init_granted h p s)"
  shows "is_resolved (register h) \<and> (\<forall>name \<in> set four_events. is_resolved (addListener h name))
       \<and> listeners (init_granted h p s) = listeners s @ four_events"
proof -
  obtain r where r: "get_prop p ''receive'' = Inr r"
    using assms
    by (cases "get_prop p ''receive''")
       (simp_all add: init_granted_def read_receive_def init_catch_def flag_console)
  have g: "r = JStr ''granted''"
  proof (rule ccontr)
    assume "r \<noteq> JStr ''granted''"
    with r have "isInitialized (init_granted h p s) = isInitialized s"
      by (simp add: init_granted_def read_receive_def flag_console)
    with assms show False by simp
  qed
  let ?k4 = "\<lambda>s. console Info
             (check_mark @ '' LeqoeHunt Push Notifications initialized successfully'')
             (s\<lparr>isInitialized := True\<rparr>)"
  let ?k3 = "\<lambda>s. call_addListener h ''pushNotificationActionPerformed'' s ?k4"
  let ?k2 = "\<lambda>s. call_addListener h ''pushNotificationReceived'' s ?k3"
  let ?k1 = "\<lambda>s. call_addListener h ''registrationError'' s ?k2"
  let ?k0 = "\<lambda>u s. call_addListener h ''registration'' s ?k1"
  let ?s0 = "plugin Register s"
  have eq0: "init_granted h p s = await_try (register h) ?s0 ?k0"
    using r g by (simp add: init_granted_def read_receive_def)
  have n0: "\<not> isInitialized ?s0" using assms(1) by (simp add: flag_plugin)
  from await_try_sets_flag [OF n0 assms(2) [unfolded eq0]]
  obtain u where reg: "register h = Resolves u"
    and eq1: "init_granted h p s = call_addListener h ''registration'' ?s0 ?k1"
    by (auto simp: eq0)
  let ?s1 = "(plugin (AddListener ''registration'') ?s0)
               \<lparr>listeners := listeners ?s0 @ [''registration'']\<rparr>"
  from call_addListener_sets_flag [OF n0 assms(2) [unfolded eq1]]
  have a1: "is_resolved (addListener h ''registration'')"
    and eq2: "init_granted h p s = call_addListener h ''registrationError'' ?s1 ?k2"
    by (simp_all add: eq1)
  have n1: "\<not> isInitialized ?s1" using assms(1) by (simp add: flag_plugin)
  let ?s2 = "(plugin (AddListener ''registrationError'') ?s1)
               \<lparr>listeners := listeners ?s1 @ [''registrationError'']\<rparr>"
  from call_addListener_sets_flag [OF n1 assms(2) [unfolded eq2]]
  have a2: "is_resolved (addListener h ''registrationError'')"
    and eq3: "init_granted h p s = call_addListener h ''pushNotificationReceived'' ?s2 ?k3"
    by (simp_all add: eq2)
  have n2: "\<not> isInitialized ?s2" using assms(1) by (simp add: flag_plugin)
  let ?s3 = "(plugin (AddListener ''pushNotificationReceived'') ?s2)
               \<lparr>listeners := listeners ?s2 @ [''pushNotificationReceived'']\<rparr>"
  from call_addListener_sets_flag [OF n2 assms(2) [unfolded eq3]]
  have a3: "is_resolved (addListener h ''pushNotificationReceived'')"
    and eq4: "init_granted h p s = call_addListener h ''pushNotificationActionPerformed'' ?s3 ?k4"
    by (simp_all add: eq3)
  have n3: "\<not> isInitialized ?s3" using assms(1) by (simp add: flag_plugin)
  let ?s4 = "(plugin (AddListener ''pushNotificationActionPerformed'') ?s3)
               \<lparr>listeners := listeners ?s3 @ [''pushNotificationActionPerformed'']\<rparr>"
  from call_addListener_sets_flag [OF n3 assms(2) [unfolded eq4]]
  have a4: "is_resolved (addListener h ''pushNotificationActionPerformed'')"
    and eq5: "init_granted h p s = ?k4 ?s4"
    by (simp_all add: eq4)
  have "listeners (init_granted h p s) = listeners s @ four_events"
    by (simp add: eq5 listeners_console listeners_plugin four_events_def)
  with reg a1 a2 a3 a4 show ?thesis
    by (simp add: four_events_def)
qed

lemma initialize_sets_flag:
  assumes "\<not> isInitialized s" and "isInitialized (initialize h s)"
  shows "isNativePlatform h \<and> is_resolved (register h)
       \<and> (\<forall>name \<in> set four_events. is_resolved (addListener h name))
       \<and> listeners (initialize h s) = listeners s @ four_events"
proof -
  have native: "isNativePlatform h"
  proof (rule ccontr)
    assume "\<not> isNativePlatform h"
    then have "isInitialized (initialize h s) = isInitialized s"
      by (simp add: initialize_def flag_console)
    with assms show False by simp
  qed
  let ?s1 = "plugin CheckPermissions s"
  let ?s2 = "plugin RequestPermissions ?s1"
  obtain p where p: "checkPermissions h = Resolves p"
    using assms native
    by (cases "checkPermissions h")
       (auto simp: initialize_def await_try_def init_catch_def flag_console flag_plugin)
  obtain r where r: "get_prop p ''receive'' = Inr r"
    using assms native p
    by (cases "get_prop p ''receive''")
       (auto simp: initialize_def await_try_def read_receive_def init_catch_def
          flag_console flag_plugin)
  show ?thesis
  proof (cases "r = JStr ''prompt''")
    case False
    then have eq: "initialize h s = init_granted h p ?s1"
      using native p r by (simp add: initialize_def await_try_def read_receive_def)
    have "\<not> isInitialized ?s1" using assms(1) by (simp add: flag_plugin)
    from init_granted_sets_flag [OF this, of h p] assms(2) native show ?thesis
      by (simp add: eq listeners_plugin)
  next
    case True
    obtain q where q: "requestPermissions h = Resolves q"
      using assms native p r True
      by (cases "requestPermissions h")
         (auto simp: initialize_def await_try_def read_receive_def init_catch_def
            flag_console flag_plugin)
    then have eq: "initialize h s = init_granted h q ?s2"
      using native p r True by (simp add: initialize_def await_try_def read_receive_def)
    have "\<not> isInitialized ?s2" using assms(1) by (simp add: flag_plugin)
    from init_granted_sets_flag [OF this, of h q] assms(2) native show ?thesis
      by (simp add: eq listeners_plugin)
  qed
qed

subsection \<open>User record and token forwarding\<close>

lemma getUserInfo_absent:
  assumes "stored_user h = None \<or> stored_user h = Some []"
  shows "getUserInfo h s = (no_user, s)"
  using assms by (auto simp: getUserInfo_def)

lemma getUserInfo_unparseable:
  assumes "stored_user h = Some item" and "item \<noteq> []" and "JSON_parse h item = Inl e"
  shows "getUserInfo h s = (no_user, console Warn ''Could not parse user info:'' s)"
  using assms by (simp add: getUserInfo_def)

lemma getUserInfo_parsed:
  assumes "stored_user h = Some item" and "item \<noteq> []" and "JSON_parse h item = Inr u"
  shows "getUserInfo h s = (u, s)"
  using assms by (simp add: getUserInfo_def)

lemma no_user_userId: "get_prop no_user ''userId'' = Inr JNull"
  by (simp add: no_user_def)

lemma getUserInfo_token: "deviceToken (snd (getUserInfo h s)) = deviceToken s"
  by (simp add: getUserInfo_def console_def split: option.split sum.split)

lemma getUserInfo_fetches: "fetches (trace (snd (getUserInfo h s))) = fetches (trace s)"
  by (simp add: getUserInfo_def fetches_console split: option.split sum.split)

lemma getUserInfo_value: "fst (getUserInfo h s) = fst (getUserInfo h s')"
  by (simp add: getUserInfo_def split: option.split sum.split)

lemma sendTokenToServer_posts:
  assumes "getUserInfo h s = (u, s1)" and "get_prop u ''userId'' = Inr uid"
  shows "fetches (trace (sendTokenToServer h token s)) =
           fetches (trace s1) @ [token_request token (js_or uid JNull) (toISOString_now h)]"
    and "deviceToken (sendTokenToServer h token s) = deviceToken s1"
  using assms
  by (simp_all add: sendTokenToServer_def Let_def do_fetch_def console_def fetches_append
      split: fetch_outcome.split)

lemma sendTokenToServer_gives_up:
  assumes "getUserInfo h s = (u, s1)" and "get_prop u ''userId'' = Inl e"
  shows "sendTokenToServer h token s = console Err ''Error sending token to server:'' s1"
  using assms by (simp add: sendTokenToServer_def)

text \<open>
  Unless the stored record parses to \<open>null\<close>, a registration event stores the token
  and posts it once.
\<close>

lemma on_registration_posts_once:
  assumes "get_prop token ''value'' = Inr T"
    and "get_prop (fst (getUserInfo h s)) ''userId'' = Inr uid"
  shows "\<exists>s'. on_registration h token s = Returns s'
           \<and> getDeviceToken s' = T
           \<and> fetches (trace s') =
               fetches (trace s) @ [token_request T (js_or uid JNull) (toISOString_now h)]"
proof -
  let ?s0 = "(console Info ''Push registration success, token: '' s)\<lparr>deviceToken := T\<rparr>"
  obtain u s1 where g: "getUserInfo h ?s0 = (u, s1)" by (cases "getUserInfo h ?s0")
  have u: "get_prop u ''userId'' = Inr uid"
    using assms(2) g getUserInfo_value [of h s ?s0] by simp
  have s1: "fetches (trace s1) = fetches (trace s)" "deviceToken s1 = T"
    using getUserInfo_fetches [of h ?s0] getUserInfo_token [of h ?s0] g
    by (simp_all add: console_def fetches_append)
  show ?thesis
    using assms(1) sendTokenToServer_posts [OF g u, of T] s1
    by (simp add: on_registration_def read_prop_def getDeviceToken_def)
qed

subsection \<open>Analytics and the tap handler\<close>

lemma trackNotificationEvent_trace:
  assumes "get_prop n ''data'' = Inr d"
  shows "trackNotificationEvent h action n s =
           s\<lparr>trace := trace s @
                Fetch (analytics_request action d (toISOString_now h) (deviceToken s)) #
                (case fetch h (analytics_request action d (toISOString_now h) (deviceToken s)) of
                   Fails e \<Rightarrow> [Console Warn ''Analytics tracking failed:'']
                 | Responds r \<Rightarrow> []
                 | NoAnswer \<Rightarrow> [])\<rparr>"
  using assms
  by (simp add: trackNotificationEvent_def Let_def do_fetch_def console_def
      split: fetch_outcome.split)

lemma fetches_analytics_tail:
  "fetches (case out of Fails e \<Rightarrow> [Console Warn m] | Responds r \<Rightarrow> [] | NoAnswer \<Rightarrow> []) = []"
  by (cases out) simp_all

lemma navigations_analytics_tail:
  "navigations (case out of Fails e \<Rightarrow> [Console Warn m] | Responds r \<Rightarrow> [] | NoAnswer \<Rightarrow> []) = []"
  by (cases out) simp_all

lemma tapped_kedai:
  assumes "get_prop n ''notification'' = Inr inner" and "get_prop inner ''data'' = Inr d"
    and "get_prop d ''type'' = Inr (JStr ''kedai_verification'')"
    and "get_prop d ''kedai_id'' = Inr (JStr k)"
  shows "handleNotificationTapped h n s =
           Returns (trackNotificationEvent h (JStr ''opened'') inner
                      (navigate (''https://leqoehunt.my/kedai/'' @ k) s))"
  using assms
  by (simp add: handleNotificationTapped_def read_prop_def Let_def navigateToKedai_def
      interpolate_def)

lemma tapped_home:
  assumes "get_prop n ''notification'' = Inr inner" and "get_prop inner ''data'' = Inr d"
    and "get_prop d ''type'' = Inr ty"
    and "ty \<notin> {JStr ''kedai_verification'', JStr ''photohunt_challenge'',
                JStr ''business_update'', JStr ''promotional''}"
  shows "handleNotificationTapped h n s =
           Returns (trackNotificationEvent h (JStr ''opened'') inner (navigateToHome s))"
  using assms by (simp add: handleNotificationTapped_def read_prop_def Let_def)

lemma tapped_throws:
  assumes "get_prop n ''notification'' = Inr inner" and "get_prop inner ''data'' = Inr JUndefined"
  shows "handleNotificationTapped h n s = Throws TypeError s"
  using assms by (simp add: handleNotificationTapped_def read_prop_def Let_def)

text \<open>
  Where the payload carries a data value, a missing or unrecognised \<open>type\<close> leads home:
  the handler returns, and its only effects are the navigation, the analytics request and,
  if that request is rejected, the analytics warning.
\<close>

lemma tapped_unrecognised_goes_home:
  assumes "get_prop n ''notification'' = Inr inner" and "get_prop inner ''data'' = Inr d"
    and "get_prop d ''type'' = Inr ty"
    and "ty \<notin> {JStr ''kedai_verification'', JStr ''photohunt_challenge'',
                JStr ''business_update'', JStr ''promotional''}"
  shows "\<exists>s' req. handleNotificationTapped h n s = Returns s'
           \<and> req = analytics_request (JStr ''opened'') d (toISOString_now h) (deviceToken s)
           \<and> trace s' = trace s @ [Navigate ''https://leqoehunt.my/'', Fetch req] @
                (case fetch h req of
                   Fails e \<Rightarrow> [Console Warn ''Analytics tracking failed:'']
                 | Responds r \<Rightarrow> []
                 | NoAnswer \<Rightarrow> [])
           \<and> navigations (trace s') = navigations (trace s) @ [''https://leqoehunt.my/'']"
proof -
  have "handleNotificationTapped h n s =
          Returns (trackNotificationEvent h (JStr ''opened'') inner (navigateToHome s))"
    using assms by (rule tapped_home)
  then show ?thesis
    by (simp add: trackNotificationEvent_trace [OF assms(2)] navigateToHome_def navigate_def
        navigations_append navigations_analytics_tail)
qed

subsection \<open>The banner\<close>

lemma add_styles_fields:
  "document_body (add_styles s) = document_body s"
  "timers (add_styles s) = timers s"
  "trace (add_styles s) = trace s"
  "deviceToken (add_styles s) = deviceToken s"
  "isInitialized (add_styles s) = isInitialized s"
  "listeners (add_styles s) = listeners s"
  by (simp_all add: add_styles_def createElement_def)

lemma showInAppNotification_strings:
  assumes "get_prop n ''title'' = Inr (JStr t)" and "get_prop n ''body'' = Inr (JStr b)"
  shows "\<exists>s' el. showInAppNotification n s = Returns s'
           \<and> document_body s' = document_body s @ [el]
           \<and> elem_ref el = next_ref s
           \<and> innerHTML el = banner_innerHTML t b
           \<and> className el = ''leqoehunt-notification''
           \<and> cssText el = banner_cssText
           \<and> timers s' = timers s @ [(5000, next_ref s)]
           \<and> trace s' = trace s \<and> deviceToken s' = deviceToken s"
  using assms
  by (simp add: showInAppNotification_def read_prop_def interpolate_def createElement_def
      Let_def add_styles_fields)

lemma fire_timer_removes:
  assumes "t \<in> set (timers s)" and "elem_ref el = snd t"
  shows "el \<notin> set (document_body (fire_timer t s))"
  using assms by (simp add: fire_timer_def remove_element_def)

subsection \<open>Operations other than initialize leave flag and listeners alone\<close>

lemma getUserInfo_keeps:
  "isInitialized (snd (getUserInfo h s)) = isInitialized s"
  "listeners (snd (getUserInfo h s)) = listeners s"
  by (simp_all add: getUserInfo_def console_def split: option.split sum.split)

lemma sendTokenToServer_keeps:
  "isInitialized (sendTokenToServer h token s) = isInitialized s"
  "listeners (sendTokenToServer h token s) = listeners s"
proof -
  obtain u s1 where g: "getUserInfo h s = (u, s1)" by (cases "getUserInfo h s")
  with getUserInfo_keeps [of h s]
  have s1: "isInitialized s1 = isInitialized s" "listeners s1 = listeners s" by simp_all
  show "isInitialized (sendTokenToServer h token s) = isInitialized s"
    and "listeners (sendTokenToServer h token s) = listeners s"
    by (simp_all add: sendTokenToServer_def g s1 Let_def do_fetch_def console_def
        split: sum.split fetch_outcome.split)
qed

lemma trackNotificationEvent_keeps:
  "isInitialized (trackNotificationEvent h a n s) = isInitialized s"
  "listeners (trackNotificationEvent h a n s) = listeners s"
  by (simp_all add: trackNotificationEvent_def Let_def do_fetch_def console_def
      split: sum.split fetch_outcome.split)

lemma navigate_keeps:
  "isInitialized (navigate u s) = isInitialized s"
  "listeners (navigate u s) = listeners s"
  by (simp_all add: navigate_def)

lemma interpolate_navigate_keeps:
  "isInitialized (state_of (interpolate v s (\<lambda>str. Returns (navigate (f str) s)))) =
     isInitialized s"
  "listeners (state_of (interpolate v s (\<lambda>str. Returns (navigate (f str) s)))) = listeners s"
  by (simp_all add: interpolate_def navigate_keeps split: sum.split)

lemma navigation_helpers_keep:
  "isInitialized (state_of (navigateToKedai v s)) = isInitialized s"
  "listeners (state_of (navigateToKedai v s)) = listeners s"
  "isInitialized (state_of (navigateToPhotoHunt v s)) = isInitialized s"
  "listeners (state_of (navigateToPhotoHunt v s)) = listeners s"
  "isInitialized (state_of (navigateToPromotion v s)) = isInitialized s"
  "listeners (state_of (navigateToPromotion v s)) = listeners s"
  "isInitialized (navigateToBusinessDashboard s) = isInitialized s"
  "listeners (navigateToBusinessDashboard s) = listeners s"
  "isInitialized (navigateToHome s) = isInitialized s"
  "listeners (navigateToHome s) = listeners s"
  by (simp_all add: navigateToKedai_def navigateToPhotoHunt_def navigateToPromotion_def
      navigateToBusinessDashboard_def navigateToHome_def interpolate_navigate_keeps
      navigate_keeps)

lemma tracked_keeps:
  assumes "isInitialized (state_of c) = isInitialized s \<and> listeners (state_of c) = listeners s"
  shows "isInitialized (state_of (case c of Throws e s1 \<Rightarrow> Throws e s1
           | Returns s1 \<Rightarrow> Returns (trackNotificationEvent h a n s1))) = isInitialized s
       \<and> listeners (state_of (case c of Throws e s1 \<Rightarrow> Throws e s1
           | Returns s1 \<Rightarrow> Returns (trackNotificationEvent h a n s1))) = listeners s"
  using assms by (cases c) (simp_all add: trackNotificationEvent_keeps)

lemma read_prop_keeps:
  assumes "\<And>x. isInitialized (state_of (cont x)) = isInitialized s
               \<and> listeners (state_of (cont x)) = listeners s"
  shows "isInitialized (state_of (read_prop v k s cont)) = isInitialized s
       \<and> listeners (state_of (read_prop v k s cont)) = listeners s"
  using assms by (cases "get_prop v k") (simp_all add: read_prop_def)

lemma showInAppNotification_keeps:
  "isInitialized (state_of (showInAppNotification n s)) = isInitialized s"
  "listeners (state_of (showInAppNotification n s)) = listeners s"
  by (simp_all add: showInAppNotification_def read_prop_def interpolate_def createElement_def
      Let_def add_styles_fields split: sum.split)

lemma handleNotificationReceived_keeps:
  "isInitialized (state_of (handleNotificationReceived h n s)) = isInitialized s"
  "listeners (state_of (handleNotificationReceived h n s)) = listeners s"
proof -
  have "isInitialized (state_of (handleNotificationReceived h n s)) = isInitialized s
      \<and> listeners (state_of (handleNotificationReceived h n s)) = listeners s"
  proof (cases "get_prop n ''title''")
    case (Inl e)
    then show ?thesis by (simp add: handleNotificationReceived_def read_prop_def)
  next
    case (Inr title)
    then obtain body data where bd: "get_prop n ''body'' = Inr body"
      "get_prop n ''data'' = Inr data"
      by (cases n) simp_all
    let ?arg = "JObj [(''title'', title), (''body'', body), (''data'', data)]"
    show ?thesis
      using showInAppNotification_keeps [of ?arg s] Inr bd
      by (cases "showInAppNotification ?arg s")
         (simp_all add: handleNotificationReceived_def read_prop_def
            trackNotificationEvent_keeps)
  qed
  then show "isInitialized (state_of (handleNotificationReceived h n s)) = isInitialized s"
    and "listeners (state_of (handleNotificationReceived h n s)) = listeners s"
    by simp_all
qed

lemma handleNotificationTapped_keeps:
  "isInitialized (state_of (handleNotificationTapped h n s)) = isInitialized s"
  "listeners (state_of (handleNotificationTapped h n s)) = listeners s"
proof -
  have "isInitialized (state_of (handleNotificationTapped h n s)) = isInitialized s
      \<and> listeners (state_of (handleNotificationTapped h n s)) = listeners s"
    unfolding handleNotificationTapped_def Let_def
  proof (intro read_prop_keeps)
    fix inner data ty
    let ?tracked = "\<lambda>c. case c of Throws e s1 \<Rightarrow> Throws e s1
                     | Returns s1 \<Rightarrow> Returns (trackNotificationEvent h (JStr ''opened'') inner s1)"
    have t: "isInitialized (state_of (?tracked c)) = isInitialized s
           \<and> listeners (state_of (?tracked c)) = listeners s"
      if "isInitialized (state_of c) = isInitialized s \<and> listeners (state_of c) = listeners s"
      for c
      using that by (rule tracked_keeps)
    have home: "isInitialized (state_of (?tracked (Returns (navigateToHome s)))) = isInitialized s
           \<and> listeners (state_of (?tracked (Returns (navigateToHome s)))) = listeners s"
      by (rule t) (simp add: navigation_helpers_keep)
    have dash: "isInitialized (state_of (?tracked (Returns (navigateToBusinessDashboard s))))
             = isInitialized s
           \<and> listeners (state_of (?tracked (Returns (navigateToBusinessDashboard s))))
             = listeners s"
      by (rule t) (simp add: navigation_helpers_keep)
    have kedai: "isInitialized (state_of (read_prop data ''kedai_id'' s
                   (\<lambda>kedaiId. ?tracked (navigateToKedai kedaiId s)))) = isInitialized s
           \<and> listeners (state_of (read_prop data ''kedai_id'' s
                   (\<lambda>kedaiId. ?tracked (navigateToKedai kedaiId s)))) = listeners s"
      by (rule read_prop_keeps, rule t) (simp add: navigation_helpers_keep)
    have photo: "isInitialized (state_of (read_prop data ''challenge_id'' s
                   (\<lambda>challengeId. ?tracked (navigateToPhotoHunt challengeId s)))) = isInitialized s
           \<and> listeners (state_of (read_prop data ''challenge_id'' s
                   (\<lambda>challengeId. ?tracked (navigateToPhotoHunt challengeId s)))) = listeners s"
      by (rule read_prop_keeps, rule t) (simp add: navigation_helpers_keep)
    have promo: "isInitialized (state_of (read_prop data ''promo_id'' s
                   (\<lambda>promoId. ?tracked (navigateToPromotion promoId s)))) = isInitialized s
           \<and> listeners (state_of (read_prop data ''promo_id'' s
                   (\<lambda>promoId. ?tracked (navigateToPromotion promoId s)))) = listeners s"
      by (rule read_prop_keeps, rule t) (simp add: navigation_helpers_keep)
    show "isInitialized (state_of
            (if truthy ty then
               (if ty = JStr ''kedai_verification''
                  then read_prop data ''kedai_id'' s (\<lambda>kedaiId.
                         ?tracked (navigateToKedai kedaiId s))
                else if ty = JStr ''photohunt_challenge''
                  then read_prop data ''challenge_id'' s (\<lambda>challengeId.
                         ?tracked (navigateToPhotoHunt challengeId s))
                else if ty = JStr ''business_update''
                  then ?tracked (Returns (navigateToBusinessDashboard s))
                else if ty = JStr ''promotional''
                  then read_prop data ''promo_id'' s (\<lambda>promoId.
                         ?tracked (navigateToPromotion promoId s))
                else ?tracked (Returns (navigateToHome s)))
             else ?tracked (Returns (navigateToHome s)))) = isInitialized s
       \<and> listeners (state_of
            (if truthy ty then
               (if ty = JStr ''kedai_verification''
                  then read_prop data ''kedai_id'' s (\<lambda>kedaiId.
                         ?tracked (navigateToKedai kedaiId s))
                else if ty = JStr ''photohunt_challenge''
                  then read_prop data ''challenge_id'' s (\<lambda>challengeId.
                         ?tracked (navigateToPhotoHunt challengeId s))
                else if ty = JStr ''business_update''
                  then ?tracked (Returns (navigateToBusinessDashboard s))
                else if ty = JStr ''promotional''
                  then read_prop data ''promo_id'' s (\<lambda>promoId.
                         ?tracked (navigateToPromotion promoId s))
                else ?tracked (Returns (navigateToHome s)))
             else ?tracked (Returns (navigateToHome s)))) = listeners s"
      using home dash kedai photo promo by presburger
  qed
  then show "isInitialized (state_of (handleNotificationTapped h n s)) = isInitialized s"
    and "listeners (state_of (handleNotificationTapped h n s)) = listeners s"
    by simp_all
qed

lemma step_other_keeps:
  assumes "p \<noteq> Initialize"
  shows "isInitialized (step h p s) = isInitialized s \<and> listeners (step h p s) = listeners s"
  using assms
  by (cases p)
     (simp_all add: on_registration_def on_registrationError_def read_prop_def
        on_pushNotificationReceived_def on_pushNotificationActionPerformed_def
        sendTokenToServer_keeps handleNotificationReceived_keeps handleNotificationTapped_keeps
        showInAppNotification_keeps trackNotificationEvent_keeps getUserInfo_keeps
        navigation_helpers_keep
        fire_timer_def remove_element_def flag_console listeners_console
        split: sum.split)

lemma step_keeps_flag: "isInitialized s \<Longrightarrow> isInitialized (step h p s)"
  by (cases "p = Initialize") (simp_all add: initialize_keeps_flag step_other_keeps)

lemma run_keeps_flag: "isInitialized s \<Longrightarrow> isInitialized (run hops s)"
  by (induction hops arbitrary: s) (auto simp: step_keeps_flag)

lemma step_since:
  assumes "\<exists>ls. listeners s = base @ ls \<and> (isInitialized s \<longrightarrow> set four_events \<subseteq> set ls)"
  shows "\<exists>ls. listeners (step h p s) = base @ ls
              \<and> (isInitialized (step h p s) \<longrightarrow> set four_events \<subseteq> set ls)"
proof (cases "p = Initialize")
  case False
  with assms show ?thesis by (simp add: step_other_keeps)
next
  case True
  from assms obtain ls where ls: "listeners s = base @ ls"
    and four: "isInitialized s \<longrightarrow> set four_events \<subseteq> set ls" by blast
  obtain ls' where ls': "listeners (initialize h s) = listeners s @ ls'"
    using initialize_extends_listeners by blast
  show ?thesis
  proof (cases "isInitialized s")
    case True
    with four ls ls' \<open>p = Initialize\<close> show ?thesis
      by (intro exI [of _ "ls @ ls'"]) auto
  next
    case False
    show ?thesis
    proof (cases "isInitialized (initialize h s)")
      case True
      from initialize_sets_flag [OF False True]
      have "listeners (initialize h s) = base @ (ls @ four_events)"
        by (simp add: ls)
      with \<open>p = Initialize\<close> show ?thesis
        by (intro exI [of _ "ls @ four_events"]) simp
    next
      case False
      with ls ls' \<open>p = Initialize\<close> show ?thesis
        by (intro exI [of _ "ls @ ls'"]) simp
    qed
  qed
qed

lemma run_since:
  assumes "\<exists>ls. listeners s = base @ ls \<and> (isInitialized s \<longrightarrow> set four_events \<subseteq> set ls)"
  shows "\<exists>ls. listeners (run hops s) = base @ ls
              \<and> (isInitialized (run hops s) \<longrightarrow> set four_events \<subseteq> set ls)"
  using assms
proof (induction hops arbitrary: s)
  case Nil
  then show ?case by simp
next
  case (Cons hp hops)
  obtain h p where hp: "hp = (h, p)" by (cases hp)
  from Cons.IH [OF step_since [OF Cons.prems, of h p]] show ?case
    by (simp add: hp)
qed

section \<open>A registration event\<close>

text \<open>
  Claim C1. A registration event delivering the token \<open>T1\<close> should store it and post it
  once to the push-token endpoint. On a phone whose \<open>localStorage\<close> holds the text
  \<open>null\<close> under \<open>leqoehunt_user\<close>, the token is stored, but \<open>JSON.parse\<close>
  returns \<open>null\<close>, the read \<open>userInfo.userId\<close> throws inside the \<open>try\<close> of
  \<open>sendTokenToServer\<close>, and no request is made at all.
\<close>

theorem C1_registration_with_null_user:
  "localStorage phone_null_user ''leqoehunt_user'' = Some ''null''
   \<and> JSON_parse phone_null_user ''null'' = Inr JNull
   \<and> get_prop token_T1 ''value'' = Inr (JStr ''T1'')
   \<and> on_registration phone_null_user token_T1 blank_page =
       Returns (blank_page\<lparr>deviceToken := JStr ''T1'',
                  trace := [Console Info ''Push registration success, token: '',
                            Console Err ''Error sending token to server:'']\<rparr>)
   \<and> getDeviceToken (state_of (on_registration phone_null_user token_T1 blank_page)) = JStr ''T1''
   \<and> fetches (trace (state_of (on_registration phone_null_user token_T1 blank_page))) = []"
  by (simp add: phone_null_user_def phone_def parse_examples_def token_T1_def blank_page_def
      on_registration_def read_prop_def sendTokenToServer_def getUserInfo_def stored_user_def
      item_or_def console_def getDeviceToken_def)

section \<open>Initialization on a non-native host\<close>

text \<open>
  Claim C2. On a host that is not a native platform, \<open>initialize\<close> writes its diagnostic
  line and returns: the state is otherwise untouched, so no permission check or request
  and no registration call is made, no listener is attached, and the flag keeps its value,
  which after the constructor is false.
\<close>

theorem C2_non_native:
  assumes "\<not> isNativePlatform h"
  shows "initialize h s =
           s\<lparr>trace := trace s @ [Console Info ''Push notifications not available on web platform'']\<rparr>
       \<and> plugin_calls (trace (initialize h s)) = plugin_calls (trace s)
       \<and> listeners (initialize h s) = listeners s
       \<and> isInitialized (initialize h s) = isInitialized s
       \<and> isReady (constructor h w) = False"
  using assms by (simp add: initialize_browser plugin_calls_append constructor_def fields_init_def isReady_def)

theorem C2_witness:
  "\<not> isNativePlatform browser
   \<and> initialize browser blank_page =
       blank_page\<lparr>trace := [Console Info ''Push notifications not available on web platform'']\<rparr>
   \<and> plugin_calls (trace (initialize browser blank_page)) = []
   \<and> listeners (initialize browser blank_page) = []
   \<and> isInitialized (initialize browser blank_page) = False
   \<and> isReady (constructor browser blank_page) = False"
proof -
  have nn: "\<not> isNativePlatform browser"
    by (simp add: browser_def phone_def)
  show ?thesis
    using C2_non_native [OF nn, of blank_page blank_page] nn
    by (simp add: blank_page_def)
qed

section \<open>Initialization when the permission is granted after the prompt\<close>

text \<open>
  Claim C3, as amended. On a native host where \<open>checkPermissions\<close> reports
  \<open>prompt\<close> and \<open>requestPermissions\<close> resolves with \<open>granted\<close>, and where
  \<open>register\<close> and the four \<open>addListener\<close> calls resolve, \<open>initialize\<close> makes the
  seven plugin calls in order, attaches the four listeners and ends with the flag true.
\<close>

theorem C3_prompt_then_granted:
  assumes "isNativePlatform h"
    and "checkPermissions h = Resolves p" and "get_prop p ''receive'' = Inr (JStr ''prompt'')"
    and "requestPermissions h = Resolves q" and "get_prop q ''receive'' = Inr (JStr ''granted'')"
    and "is_resolved (register h)"
    and "\<forall>name \<in> set four_events. is_resolved (addListener h name)"
  shows "plugin_calls (trace (initialize h s)) =
           plugin_calls (trace s) @
             [CheckPermissions, RequestPermissions, Register,
              AddListener ''registration'', AddListener ''registrationError'',
              AddListener ''pushNotificationReceived'',
              AddListener ''pushNotificationActionPerformed'']
       \<and> listeners (initialize h s) = listeners s @ four_events
       \<and> isInitialized (initialize h s)
       \<and> isReady (constructor h w)"
proof -
  from assms(6) obtain u where u: "register h = Resolves u"
    by (cases "register h") simp_all
  note eq = initialize_granted_after_prompt [OF assms(1-5) u assms(7)]
  show ?thesis
    by (simp add: eq plugin_calls_append isReady_def constructor_def)
qed

theorem C3_witness:
  "isNativePlatform phone
   \<and> checkPermissions phone = Resolves (perm ''prompt'')
   \<and> requestPermissions phone = Resolves (perm ''granted'')
   \<and> plugin_calls (trace (initialize phone blank_page)) =
        [CheckPermissions, RequestPermissions, Register,
         AddListener ''registration'', AddListener ''registrationError'',
         AddListener ''pushNotificationReceived'',
         AddListener ''pushNotificationActionPerformed'']
   \<and> listeners (initialize phone blank_page) = four_events
   \<and> isInitialized (initialize phone blank_page)
   \<and> isReady (constructor phone blank_page)"
proof -
  have 1: "isNativePlatform phone" by (simp add: phone_def)
  have 2: "checkPermissions phone = Resolves (perm ''prompt'')" by (simp add: phone_def)
  have 3: "get_prop (perm ''prompt'') ''receive'' = Inr (JStr ''prompt'')" by (simp add: perm_def)
  have 4: "requestPermissions phone = Resolves (perm ''granted'')" by (simp add: phone_def)
  have 5: "get_prop (perm ''granted'') ''receive'' = Inr (JStr ''granted'')" by (simp add: perm_def)
  have 6: "is_resolved (register phone)" by (simp add: phone_def)
  have 7: "\<forall>name \<in> set four_events. is_resolved (addListener phone name)" by (simp add: phone_def)
  show ?thesis
    using C3_prompt_then_granted [OF 1 2 3 4 5 6 7, of blank_page blank_page] 1 2 4
    by (simp add: blank_page_def)
qed

text \<open>
  Without the two added conditions the claim fails: when \<open>register\<close> rejects, the
  \<open>catch\<close> logs the failure, no listener is attached and the flag stays false.
\<close>

theorem C3_counterexample:
  "isNativePlatform phone_register_rejects
   \<and> checkPermissions phone_register_rejects = Resolves (perm ''prompt'')
   \<and> get_prop (perm ''prompt'') ''receive'' = Inr (JStr ''prompt'')
   \<and> requestPermissions phone_register_rejects = Resolves (perm ''granted'')
   \<and> get_prop (perm ''granted'') ''receive'' = Inr (JStr ''granted'')
   \<and> trace (initialize phone_register_rejects blank_page) =
        [Plugin CheckPermissions, Plugin RequestPermissions, Plugin Register,
         Console Err ''Failed to initialize push notifications:'']
   \<and> listeners (initialize phone_register_rejects blank_page) = []
   \<and> \<not> isInitialized (initialize phone_register_rejects blank_page)"
  by (simp add: phone_register_rejects_def phone_def perm_def blank_page_def
      initialize_def init_granted_def await_try_def read_receive_def init_catch_def
      console_def plugin_def)

section \<open>Initialization when the permission is not granted\<close>

text \<open>
  Claim C4. On a native host, when the permission state is neither \<open>prompt\<close> nor
  \<open>granted\<close>, or is \<open>prompt\<close> and the request resolves with anything but
  \<open>granted\<close>, \<open>initialize\<close> logs the warning and returns: beyond the permission calls
  and that line nothing changes, so \<open>register\<close> is not called, no listener is attached
  and the flag remains false.
\<close>

theorem C4_permission_not_granted:
  "(isNativePlatform h \<and> checkPermissions h = Resolves p \<and> get_prop p ''receive'' = Inr r
      \<and> r \<noteq> JStr ''prompt'' \<and> r \<noteq> JStr ''granted''
    \<longrightarrow> initialize h s =
          s\<lparr>trace := trace s @ [Plugin CheckPermissions,
                                 Console Warn ''Push notification permission denied'']\<rparr>
        \<and> \<not> isReady (constructor h w))
 \<and> (isNativePlatform h \<and> checkPermissions h = Resolves p
      \<and> get_prop p ''receive'' = Inr (JStr ''prompt'')
      \<and> requestPermissions h = Resolves q \<and> get_prop q ''receive'' = Inr r
      \<and> r \<noteq> JStr ''granted''
    \<longrightarrow> initialize h s =
          s\<lparr>trace := trace s @ [Plugin CheckPermissions, Plugin RequestPermissions,
                                 Console Warn ''Push notification permission denied'']\<rparr>
        \<and> \<not> isReady (constructor h w))"
  by (simp add: initialize_not_granted initialize_not_granted_after_prompt
      isReady_def constructor_def fields_init_def)

theorem C4_witness:
  "isNativePlatform phone_denied
   \<and> checkPermissions phone_denied = Resolves (perm ''denied'')
   \<and> initialize phone_denied blank_page =
        blank_page\<lparr>trace := [Plugin CheckPermissions,
                              Console Warn ''Push notification permission denied'']\<rparr>
   \<and> \<not> isReady (constructor phone_denied blank_page)
   \<and> isNativePlatform phone_prompt_denied
   \<and> checkPermissions phone_prompt_denied = Resolves (perm ''prompt'')
   \<and> requestPermissions phone_prompt_denied = Resolves (perm ''denied'')
   \<and> initialize phone_prompt_denied blank_page =
        blank_page\<lparr>trace := [Plugin CheckPermissions, Plugin RequestPermissions,
                              Console Warn ''Push notification permission denied'']\<rparr>
   \<and> \<not> isReady (constructor phone_prompt_denied blank_page)"
  using C4_permission_not_granted
          [where h = phone_denied and p = "perm ''denied''" and r = "JStr ''denied''"
             and s = blank_page and w = blank_page]
        C4_permission_not_granted
          [where h = phone_prompt_denied and p = "perm ''prompt''" and q = "perm ''denied''"
             and r = "JStr ''denied''" and s = blank_page and w = blank_page]
  by (simp add: phone_denied_def phone_prompt_denied_def phone_def perm_def blank_page_def)

section \<open>A tap on a kedai-verification notification\<close>

text \<open>
  Claim C5. For a tapped notification whose data has type \<open>kedai_verification\<close> and
  kedai_id \<open>42\<close>, \<open>handleNotificationTapped\<close> returns normally, navigates once, to
  \<open>https://leqoehunt.my/kedai/42\<close>, and makes exactly one request: a POST to the
  analytics endpoint with action \<open>opened\<close>.
\<close>

theorem C5_tap_kedai_verification:
  assumes "get_prop n ''notification'' = Inr inner" and "get_prop inner ''data'' = Inr d"
    and "get_prop d ''type'' = Inr (JStr ''kedai_verification'')"
    and "get_prop d ''kedai_id'' = Inr (JStr ''42'')"
  shows "\<exists>s' req. handleNotificationTapped h n s = Returns s'
           \<and> navigations (trace s') = navigations (trace s) @ [''https://leqoehunt.my/kedai/42'']
           \<and> fetches (trace s') = fetches (trace s) @ [req]
           \<and> req = analytics_request (JStr ''opened'') d (toISOString_now h) (deviceToken s)
           \<and> req_url req = ''https://leqoehunt.my/api/notification-analytics''
           \<and> req_method req = ''POST''
           \<and> get_prop (req_json req) ''action'' = Inr (JStr ''opened'')"
proof -
  let ?s1 = "s\<lparr>trace := trace s @ [Navigate ''https://leqoehunt.my/kedai/42'']\<rparr>"
  have eq: "handleNotificationTapped h n s =
          Returns (trackNotificationEvent h (JStr ''opened'') inner ?s1)"
    using tapped_kedai [OF assms, of h s] by (simp add: navigate_def)
  show ?thesis
    by (simp add: eq trackNotificationEvent_trace [OF assms(2)] fetches_append
        navigations_append fetches_analytics_tail navigations_analytics_tail
        analytics_request_def)
qed

theorem C5_witness:
  "navigations (trace (state_of (handleNotificationTapped phone tap_kedai_42 blank_page))) =
     [''https://leqoehunt.my/kedai/42'']
   \<and> fetches (trace (state_of (handleNotificationTapped phone tap_kedai_42 blank_page))) =
     [analytics_request (JStr ''opened'')
        (JObj [(''type'', JStr ''kedai_verification''), (''kedai_id'', JStr ''42'')])
        ''2024-05-01T08:00:00.000Z'' JNull]"
proof -
  let ?inner = "JObj [(''title'', JStr ''Kedai''),
                     (''data'', JObj [(''type'', JStr ''kedai_verification''),
                                     (''kedai_id'', JStr ''42'')])]"
  let ?d = "JObj [(''type'', JStr ''kedai_verification''), (''kedai_id'', JStr ''42'')]"
  have 1: "get_prop tap_kedai_42 ''notification'' = Inr ?inner"
    by (simp add: tap_kedai_42_def)
  have 2: "get_prop ?inner ''data'' = Inr ?d" by simp
  have 3: "get_prop ?d ''type'' = Inr (JStr ''kedai_verification'')" by simp
  have 4: "get_prop ?d ''kedai_id'' = Inr (JStr ''42'')" by simp
  from C5_tap_kedai_verification [OF 1 2 3 4, of phone blank_page]
  show ?thesis
    by (auto simp: blank_page_def phone_def)
qed

section \<open>A tap on a notification of no recognised type\<close>

text \<open>
  Claim C6. A tapped notification whose \<open>type\<close> field is absent should lead to the home
  URL. For a tap whose inner notification has no \<open>data\<close> property there is no
  \<open>type\<close> field (\<open>notification.data?.type\<close> is \<open>undefined\<close>), yet
  \<open>handleNotificationTapped\<close> throws a TypeError at the unguarded read \<open>data.type\<close>
  and navigates nowhere, while \<open>trackNotificationEvent\<close>, which guards the same read
  with \<open>?.\<close>, handles that inner notification and posts.
\<close>

theorem C6_tap_without_data_does_not_go_home:
  "get_prop tap_without_data ''notification'' = Inr (JObj [(''title'', JStr ''Hi'')])
   \<and> get_prop (JObj [(''title'', JStr ''Hi'')]) ''data'' = Inr JUndefined
   \<and> opt_chain JUndefined ''type'' = JUndefined
   \<and> handleNotificationTapped phone tap_without_data blank_page = Throws TypeError blank_page
   \<and> on_pushNotificationActionPerformed phone tap_without_data blank_page =
       Throws TypeError (console Info ''Push notification action performed'' blank_page)
   \<and> navigations (trace (state_of
         (on_pushNotificationActionPerformed phone tap_without_data blank_page))) = []
   \<and> trackNotificationEvent phone (JStr ''opened'') (JObj [(''title'', JStr ''Hi'')]) blank_page =
       blank_page\<lparr>trace :=
         [Fetch (analytics_request (JStr ''opened'') JUndefined ''2024-05-01T08:00:00.000Z''
                   JNull)]\<rparr>"
  by (simp add: tap_without_data_def opt_chain_def handleNotificationTapped_def read_prop_def
      on_pushNotificationActionPerformed_def console_def blank_page_def
      trackNotificationEvent_def analytics_request_def do_fetch_def phone_def Let_def)

section \<open>A notification received in the foreground\<close>

text \<open>
  Claim C7. For a received notification whose title and body are the strings \<open>t\<close> and
  \<open>b\<close>, \<open>handleNotificationReceived\<close> returns normally; it appends to
  \<open>document.body\<close> one new banner element whose markup contains \<open>t\<close> and \<open>b\<close>,
  sets a timer of 5000 ms that removes that element, and makes exactly one request: a
  POST to the analytics endpoint with action \<open>received\<close>.
\<close>

theorem C7_received_banner_and_analytics:
  assumes "get_prop n ''title'' = Inr (JStr t)" and "get_prop n ''body'' = Inr (JStr b)"
  shows "\<exists>s' el req. handleNotificationReceived h n s = Returns s'
           \<and> document_body s' = document_body s @ [el]
           \<and> elem_ref el = next_ref s
           \<and> innerHTML el = banner_pre @ t @ banner_mid @ b @ banner_post
           \<and> className el = ''leqoehunt-notification''
           \<and> cssText el = banner_cssText
           \<and> timers s' = timers s @ [(5000, elem_ref el)]
           \<and> el \<notin> set (document_body (fire_timer (5000, elem_ref el) s'))
           \<and> fetches (trace s') = fetches (trace s) @ [req]
           \<and> req = analytics_request (JStr ''received'') (opt_chain n ''data'')
                     (toISOString_now h) (deviceToken s)
           \<and> req_url req = ''https://leqoehunt.my/api/notification-analytics''
           \<and> req_method req = ''POST''
           \<and> get_prop (req_json req) ''action'' = Inr (JStr ''received'')"
proof -
  let ?arg = "JObj [(''title'', JStr t), (''body'', JStr b), (''data'', opt_chain n ''data'')]"
  have "get_prop ?arg ''title'' = Inr (JStr t)" and "get_prop ?arg ''body'' = Inr (JStr b)"
    by simp_all
  from showInAppNotification_strings [OF this, of s]
  obtain s1 el where s1: "showInAppNotification ?arg s = Returns s1"
    and body: "document_body s1 = document_body s @ [el]"
    and el: "elem_ref el = next_ref s" "innerHTML el = banner_innerHTML t b"
            "className el = ''leqoehunt-notification''" "cssText el = banner_cssText"
    and tm: "timers s1 = timers s @ [(5000, next_ref s)]"
    and tr: "trace s1 = trace s" and tok: "deviceToken s1 = deviceToken s"
    by blast
  have d: "get_prop n ''data'' = Inr (opt_chain n ''data'')"
    using assms(1) by (cases n) (simp_all add: opt_chain_def)
  let ?s' = "trackNotificationEvent h (JStr ''received'') n s1"
  note track = trackNotificationEvent_trace [OF d, of h "JStr ''received''" s1]
  have ret: "handleNotificationReceived h n s = Returns ?s'"
    using assms d s1 by (simp add: handleNotificationReceived_def read_prop_def)
  have body': "document_body ?s' = document_body s @ [el]"
    by (simp add: track body)
  have tm': "timers ?s' = timers s @ [(5000, elem_ref el)]"
    by (simp add: track tm el(1))
  have gone: "el \<notin> set (document_body (fire_timer (5000, elem_ref el) ?s'))"
    by (rule fire_timer_removes) (simp_all add: tm')
  have ft: "fetches (trace ?s') = fetches (trace s) @
              [analytics_request (JStr ''received'') (opt_chain n ''data'')
                 (toISOString_now h) (deviceToken s)]"
    by (simp add: track tr tok fetches_append fetches_analytics_tail)
  show ?thesis
    using ret body' el tm' gone ft
    by (simp add: banner_innerHTML_def analytics_request_def)
qed

theorem C7_witness:
  "map innerHTML (document_body (state_of (handleNotificationReceived phone hi_there blank_page)))
     = [banner_pre @ ''Hi'' @ banner_mid @ ''There'' @ banner_post]
   \<and> timers (state_of (handleNotificationReceived phone hi_there blank_page)) = [(5000, 0)]
   \<and> document_body (fire_timer (5000, 0)
        (state_of (handleNotificationReceived phone hi_there blank_page))) = []
   \<and> fetches (trace (state_of (handleNotificationReceived phone hi_there blank_page))) =
       [analytics_request (JStr ''received'') (JObj []) ''2024-05-01T08:00:00.000Z'' JNull]"
proof -
  have 1: "get_prop hi_there ''title'' = Inr (JStr ''Hi'')"
    and 2: "get_prop hi_there ''body'' = Inr (JStr ''There'')"
    by (simp_all add: hi_there_def)
  have 3: "opt_chain hi_there ''data'' = JObj []"
    by (simp add: hi_there_def opt_chain_def)
  from C7_received_banner_and_analytics [OF 1 2, of phone blank_page]
  obtain s' el where "handleNotificationReceived phone hi_there blank_page = Returns s'"
    and "document_body s' = document_body blank_page @ [el]"
    and "elem_ref el = next_ref blank_page"
    and "innerHTML el = banner_pre @ ''Hi'' @ banner_mid @ ''There'' @ banner_post"
    and "timers s' = timers blank_page @ [(5000, elem_ref el)]"
    and "el \<notin> set (document_body (fire_timer (5000, elem_ref el) s'))"
    and "fetches (trace s') = fetches (trace blank_page) @
           [analytics_request (JStr ''received'') (opt_chain hi_there ''data'')
              (toISOString_now phone) (deviceToken blank_page)]"
    by blast
  then show ?thesis
    by (simp add: 3 blank_page_def phone_def fire_timer_def remove_element_def)
qed

section \<open>Token forwarding without a usable user record\<close>

text \<open>
  Claim C8, as amended. When the stored user record is absent or empty, the token is
  posted with \<open>user_id\<close> null and the read logs nothing. When \<open>JSON.parse\<close> throws
  on it, the error is caught and logged as a warning, and the token is posted with
  \<open>user_id\<close> null. When it parses to a value that has a readable but falsy
  \<open>userId\<close>, the token is posted with \<open>user_id\<close> null and nothing is logged by the
  read.
\<close>

theorem C8_user_info_unusable:
  "(stored_user h = None \<or> stored_user h = Some []
      \<longrightarrow> getUserInfo h s = (no_user, s)
        \<and> fetches (trace (sendTokenToServer h token s)) =
            fetches (trace s) @ [token_request token JNull (toISOString_now h)])
 \<and> (stored_user h = Some item \<and> item \<noteq> [] \<and> JSON_parse h item = Inl e
      \<longrightarrow> getUserInfo h s = (no_user, console Warn ''Could not parse user info:'' s)
        \<and> fetches (trace (sendTokenToServer h token s)) =
            fetches (trace s) @ [token_request token JNull (toISOString_now h)])
 \<and> (stored_user h = Some item \<and> item \<noteq> [] \<and> JSON_parse h item = Inr u
      \<and> get_prop u ''userId'' = Inr uid \<and> \<not> truthy uid
      \<longrightarrow> getUserInfo h s = (u, s)
        \<and> fetches (trace (sendTokenToServer h token s)) =
            fetches (trace s) @ [token_request token JNull (toISOString_now h)])"
proof (intro conjI impI)
  assume a: "stored_user h = None \<or> stored_user h = Some []"
  then show g: "getUserInfo h s = (no_user, s)" by (rule getUserInfo_absent)
  show "fetches (trace (sendTokenToServer h token s)) =
            fetches (trace s) @ [token_request token JNull (toISOString_now h)]"
    using sendTokenToServer_posts(1) [OF g no_user_userId, of token] by (simp add: js_or_def)
next
  assume a: "stored_user h = Some item \<and> item \<noteq> [] \<and> JSON_parse h item = Inl e"
  then show g: "getUserInfo h s = (no_user, console Warn ''Could not parse user info:'' s)"
    by (simp add: getUserInfo_unparseable)
  show "fetches (trace (sendTokenToServer h token s)) =
            fetches (trace s) @ [token_request token JNull (toISOString_now h)]"
    using sendTokenToServer_posts(1) [OF g no_user_userId, of token]
    by (simp add: js_or_def fetches_console)
next
  assume a: "stored_user h = Some item \<and> item \<noteq> [] \<and> JSON_parse h item = Inr u
      \<and> get_prop u ''userId'' = Inr uid \<and> \<not> truthy uid"
  then show g: "getUserInfo h s = (u, s)"
    by (simp add: getUserInfo_parsed)
  from a have "get_prop u ''userId'' = Inr uid" and "\<not> truthy uid" by simp_all
  then show "fetches (trace (sendTokenToServer h token s)) =
            fetches (trace s) @ [token_request token JNull (toISOString_now h)]"
    using sendTokenToServer_posts(1) [OF g, of uid token] by (simp add: js_or_def)
qed

theorem C8_witness:
  "stored_user phone = None
   \<and> getUserInfo phone blank_page = (no_user, blank_page)
   \<and> fetches (trace (sendTokenToServer phone (JStr ''T1'') blank_page)) =
       [token_request (JStr ''T1'') JNull ''2024-05-01T08:00:00.000Z'']
   \<and> stored_user phone_broken_user = Some ''{oops''
   \<and> JSON_parse phone_broken_user ''{oops'' = Inl SyntaxError
   \<and> getUserInfo phone_broken_user blank_page =
       (no_user, console Warn ''Could not parse user info:'' blank_page)
   \<and> fetches (trace (sendTokenToServer phone_broken_user (JStr ''T1'') blank_page)) =
       [token_request (JStr ''T1'') JNull ''2024-05-01T08:00:00.000Z'']
   \<and> stored_user phone_empty_user = Some ''{}''
   \<and> JSON_parse phone_empty_user ''{}'' = Inr (JObj [])
   \<and> getUserInfo phone_empty_user blank_page = (JObj [], blank_page)
   \<and> fetches (trace (sendTokenToServer phone_empty_user (JStr ''T1'') blank_page)) =
       [token_request (JStr ''T1'') JNull ''2024-05-01T08:00:00.000Z'']"
proof -
  have a: "stored_user phone = None"
    by (simp add: stored_user_def item_or_def phone_def)
  have b: "stored_user phone_broken_user = Some ''{oops''"
    "JSON_parse phone_broken_user ''{oops'' = Inl SyntaxError"
    by (simp_all add: stored_user_def item_or_def phone_broken_user_def phone_def
        parse_examples_def)
  have c: "stored_user phone_empty_user = Some ''{}''"
    "JSON_parse phone_empty_user ''{}'' = Inr (JObj [])"
    "get_prop (JObj []) ''userId'' = Inr JUndefined" "\<not> truthy JUndefined"
    by (simp_all add: stored_user_def item_or_def phone_empty_user_def phone_def
        parse_examples_def)
  have t: "toISOString_now phone = ''2024-05-01T08:00:00.000Z''"
    "toISOString_now phone_broken_user = ''2024-05-01T08:00:00.000Z''"
    "toISOString_now phone_empty_user = ''2024-05-01T08:00:00.000Z''"
    by (simp_all add: phone_broken_user_def phone_empty_user_def phone_def)
  have e: "fetches (trace blank_page) = []" by (simp add: blank_page_def)
  show ?thesis
    using C8_user_info_unusable
            [where h = phone and s = blank_page and token = "JStr ''T1''"]
          C8_user_info_unusable
            [where h = phone_broken_user and s = blank_page and token = "JStr ''T1''"
               and item = "''{oops''" and e = SyntaxError]
          C8_user_info_unusable
            [where h = phone_empty_user and s = blank_page and token = "JStr ''T1''"
               and item = "''{}''" and u = "JObj []" and uid = JUndefined]
    by (simp add: a b c t e)
qed

text \<open>
  As first stated the claim fails twice. With no stored record there is no failure to
  catch, and no warning: the only console line is the server's acknowledgement. With the
  stored text \<open>null\<close> the record parses, to \<open>null\<close>, and no request is made.
\<close>

theorem C8_counterexample:
  "stored_user phone = None
   \<and> trace (sendTokenToServer phone (JStr ''T1'') blank_page) =
       [Fetch (token_request (JStr ''T1'') JNull ''2024-05-01T08:00:00.000Z''),
        Console Info (check_mark @ '' Device token registered with LeqoeHunt server'')]
   \<and> stored_user phone_null_user = Some ''null''
   \<and> JSON_parse phone_null_user ''null'' = Inr JNull
   \<and> trace (sendTokenToServer phone_null_user (JStr ''T1'') blank_page) =
       [Console Err ''Error sending token to server:'']"
  by (simp add: phone_null_user_def phone_def parse_examples_def blank_page_def
      sendTokenToServer_def getUserInfo_def stored_user_def item_or_def no_user_def
      console_def do_fetch_def js_or_def Let_def)

section \<open>The initialization flag\<close>

text \<open>
  Claim C9. The flag is false once the constructor has set the fields. A call of
  \<open>initialize\<close> that turns it from false to true has had \<open>register\<close> and all four
  \<open>addListener\<close> calls resolve and has attached the four listeners; so in every
  history from construction, with whatever host behaviour at each operation (a promise
  that never settles included, which gives the states in which \<open>initialize\<close> is
  suspended), the flag is true only if the four listeners have been attached since. No
  operation other than \<open>initialize\<close> changes the flag, and no operation, \<open>initialize\<close>
  included, and so no history, takes it from true to false.
\<close>

theorem C9_flag_false_until_attached_then_never_reset:
  "isInitialized (fields_init w) = False
 \<and> (\<not> isInitialized s \<and> isInitialized (initialize h s)
      \<longrightarrow> is_resolved (register h)
        \<and> (\<forall>name \<in> set four_events. is_resolved (addListener h name))
        \<and> listeners (initialize h s) = listeners s @ four_events)
 \<and> (\<exists>ls. listeners (run hops (fields_init w)) = listeners w @ ls
        \<and> (isInitialized (run hops (fields_init w)) \<longrightarrow> set four_events \<subseteq> set ls))
 \<and> (p \<noteq> Initialize \<longrightarrow> isInitialized (step h p s) = isInitialized s)
 \<and> (isInitialized s \<longrightarrow> isInitialized (step h p s))
 \<and> (isInitialized s \<longrightarrow> isInitialized (run hops s))"
proof (intro conjI)
  show "isInitialized (fields_init w) = False"
    by (simp add: fields_init_def)
  show "\<not> isInitialized s \<and> isInitialized (initialize h s)
      \<longrightarrow> is_resolved (register h)
        \<and> (\<forall>name \<in> set four_events. is_resolved (addListener h name))
        \<and> listeners (initialize h s) = listeners s @ four_events"
    using initialize_sets_flag [of s h] by blast
  have "\<exists>ls. listeners (fields_init w) = listeners w @ ls
           \<and> (isInitialized (fields_init w) \<longrightarrow> set four_events \<subseteq> set ls)"
    by (simp add: fields_init_def)
  then show "\<exists>ls. listeners (run hops (fields_init w)) = listeners w @ ls
        \<and> (isInitialized (run hops (fields_init w)) \<longrightarrow> set four_events \<subseteq> set ls)"
    by (rule run_since)
  show "p \<noteq> Initialize \<longrightarrow> isInitialized (step h p s) = isInitialized s"
    by (simp add: step_other_keeps)
  show "isInitialized s \<longrightarrow> isInitialized (step h p s)"
    by (simp add: step_keeps_flag)
  show "isInitialized s \<longrightarrow> isInitialized (run hops s)"
    by (simp add: run_keeps_flag)
qed

theorem C9_witness:
  "isInitialized (fields_init blank_page) = False
 \<and> \<not> isInitialized blank_page
 \<and> isInitialized (initialize phone blank_page)
 \<and> is_resolved (register phone)
 \<and> listeners (initialize phone blank_page) = four_events
 \<and> set four_events \<subseteq> set (listeners
      (run [(phone, Initialize), (phone, Registration token_T1)] (fields_init blank_page)))
 \<and> isInitialized (step phone NavigateToHome (initialize phone blank_page))
 \<and> isInitialized (step phone_denied Initialize (initialize phone blank_page))
 \<and> isInitialized
      (run [(phone, Registration token_T1), (phone_denied, Initialize),
            (phone, PushNotificationActionPerformed tap_without_data)]
         (initialize phone blank_page))"
proof -
  let ?s1 = "initialize phone blank_page"
  have f: "\<not> isInitialized blank_page" by (simp add: blank_page_def)
  have t: "isInitialized ?s1"
    by (simp add: phone_def perm_def blank_page_def initialize_def init_granted_def
        call_addListener_def await_try_def read_receive_def console_def plugin_def)
  have fi: "fields_init blank_page = blank_page"
    by (simp add: fields_init_def blank_page_def)
  have r: "isInitialized (run [(phone, Initialize), (phone, Registration token_T1)]
             (fields_init blank_page))"
    using run_keeps_flag [OF t, of "[(phone, Registration token_T1)]"] by (simp add: fi)
  have l: "listeners blank_page = []" by (simp add: blank_page_def)
  have n: "NavigateToHome \<noteq> Initialize" by simp
  note c9 = C9_flag_false_until_attached_then_never_reset
  show ?thesis
    using c9 [where w = blank_page and s = blank_page and h = phone
                and hops = "[(phone, Initialize), (phone, Registration token_T1)]"
                and p = NavigateToHome]
          c9 [where w = blank_page and s = ?s1 and h = phone and p = NavigateToHome
                and hops = "[(phone, Registration token_T1), (phone_denied, Initialize),
                             (phone, PushNotificationActionPerformed tap_without_data)]"]
          c9 [where w = blank_page and s = ?s1 and h = phone_denied and p = Initialize
                and hops = "[]"]
          f t r l n
    by auto
qed

section \<open>A tap on a notification without data\<close>

text \<open>
  Claim C10. For a tapped notification whose inner notification has no \<open>data\<close>
  property, \<open>handleNotificationTapped\<close> throws a TypeError at the read \<open>data.type\<close>,
  before any effect: the listener has logged its line, and there is no navigation and no
  request.
\<close>

theorem C10_tap_without_data_throws:
  assumes "get_prop n ''notification'' = Inr inner" and "get_prop inner ''data'' = Inr JUndefined"
  shows "handleNotificationTapped h n s = Throws TypeError s
       \<and> on_pushNotificationActionPerformed h n s =
           Throws TypeError (console Info ''Push notification action performed'' s)
       \<and> navigations (trace (state_of (on_pushNotificationActionPerformed h n s))) =
           navigations (trace s)
       \<and> fetches (trace (state_of (on_pushNotificationActionPerformed h n s))) =
           fetches (trace s)"
  by (simp add: on_pushNotificationActionPerformed_def tapped_throws [OF assms]
      console_def navigations_append fetches_append)

theorem C10_witness:
  "handleNotificationTapped phone tap_without_data blank_page = Throws TypeError blank_page
   \<and> navigations (trace (state_of
         (on_pushNotificationActionPerformed phone tap_without_data blank_page))) = []
   \<and> fetches (trace (state_of
         (on_pushNotificationActionPerformed phone tap_without_data blank_page))) = []"
proof -
  have 1: "get_prop tap_without_data ''notification'' = Inr (JObj [(''title'', JStr ''Hi'')])"
    by (simp add: tap_without_data_def)
  have 2: "get_prop (JObj [(''title'', JStr ''Hi'')]) ''data'' = Inr JUndefined" by simp
  from C10_tap_without_data_throws [OF 1 2, of phone blank_page]
  show ?thesis
    by (simp add: blank_page_def console_def)
qed

end
